theory Spec2Isabelle
  imports Main "HOL-Library.AList"
begin

section \<open>JSON values and the Python operations the script applies to them\<close>

text \<open>
  The script \<^verbatim>\<open>scripts/deploy.py\<close> handles the decoded JSON bodies of the Zenodo API as
  untyped Python values. A decoded body is a \<open>json\<close> value; a Python \<open>dict\<close> keeps its
  insertion order and is an association list without duplicate keys.
  JSON numbers are integers here (the script only reads the numeric deposition id).
\<close>

datatype json =
    JNull
  | JBool bool
  | JNum int
  | JStr string
  | JArr "json list"
  | JObj "(string \<times> json) list"

text \<open>The exceptions of the interpreter and of the libraries the script can meet.\<close>

datatype exc =
    KeyError string
  | TypeError
  | AttributeError
  | JSONDecodeError
  | OSError
  | RequestException

text \<open>
  A \<^verbatim>\<open>"..." % (a, b)\<close> expression is kept as its format string with its argument tuple;
  \<open>Dumps j\<close> is \<^verbatim>\<open>json.dumps(j, indent=4)\<close>.
\<close>

datatype arg = AStr string | AInt int | AJson json

datatype msg = Fmt string "arg list" | Dumps json

text \<open>\<^verbatim>\<open>sys.exit(message)\<close> is \<open>Exit message\<close>; an uncaught exception is \<open>Raised\<close>.\<close>

datatype error = Exit msg | Raised exc

type_synonym 'a result = "error + 'a"

definition startswith :: "string \<Rightarrow> string \<Rightarrow> bool" where
  \<comment> \<open>\<^verbatim>\<open>s.startswith(p)\<close>\<close>
  "startswith s p = (take (length p) s = p)"

fun substring :: "string \<Rightarrow> string \<Rightarrow> bool" where
  \<comment> \<open>\<^verbatim>\<open>p in s\<close> for two strings\<close>
  "substring p [] = (p = [])"
| "substring p (c # cs) = (startswith (c # cs) p \<or> substring p cs)"

fun truthy :: "json \<Rightarrow> bool" where
  "truthy JNull = False"
| "truthy (JBool b) = b"
| "truthy (JNum n) = (n \<noteq> 0)"
| "truthy (JStr s) = (s \<noteq> [])"
| "truthy (JArr xs) = (xs \<noteq> [])"
| "truthy (JObj kvs) = (kvs \<noteq> [])"

fun getitem :: "json \<Rightarrow> string \<Rightarrow> json result" where
  \<comment> \<open>\<^verbatim>\<open>obj[key]\<close> with a string key\<close>
  "getitem (JObj kvs) k =
     (case map_of kvs k of None \<Rightarrow> Inl (Raised (KeyError k)) | Some v \<Rightarrow> Inr v)"
| "getitem _ k = Inl (Raised TypeError)"

fun py_in :: "string \<Rightarrow> json \<Rightarrow> bool result" where
  \<comment> \<open>\<^verbatim>\<open>key in obj\<close> with a string key\<close>
  "py_in k (JObj kvs) = Inr (k \<in> set (map fst kvs))"
| "py_in k (JArr xs) = Inr (JStr k \<in> set xs)"
| "py_in k (JStr s) = Inr (substring k s)"
| "py_in k _ = Inl (Raised TypeError)"

fun py_iter :: "json \<Rightarrow> json list result" where
  \<comment> \<open>the elements a \<^verbatim>\<open>for\<close> loop over the value visits\<close>
  "py_iter (JArr xs) = Inr xs"
| "py_iter (JObj kvs) = Inr (map (\<lambda>kv. JStr (fst kv)) kvs)"
| "py_iter (JStr s) = Inr (map (\<lambda>c. JStr [c]) s)"
| "py_iter _ = Inl (Raised TypeError)"

fun py_get :: "json \<Rightarrow> string \<Rightarrow> json \<Rightarrow> json result" where
  \<comment> \<open>\<^verbatim>\<open>obj.get(key, default)\<close>\<close>
  "py_get (JObj kvs) k d = Inr (case map_of kvs k of None \<Rightarrow> d | Some v \<Rightarrow> v)"
| "py_get _ k d = Inl (Raised AttributeError)"

fun py_items :: "json \<Rightarrow> (string \<times> json) list result" where
  \<comment> \<open>\<^verbatim>\<open>obj.items()\<close>\<close>
  "py_items (JObj kvs) = Inr kvs"
| "py_items _ = Inl (Raised AttributeError)"

fun setitem :: "json \<Rightarrow> string \<Rightarrow> json \<Rightarrow> json result" where
  \<comment> \<open>\<^verbatim>\<open>obj[key] = value\<close>: the updated object\<close>
  "setitem (JObj kvs) k v = Inr (JObj (AList.update k v kvs))"
| "setitem _ k v = Inl (Raised TypeError)"

fun dict_update :: "json \<Rightarrow> (string \<times> json) list \<Rightarrow> json result" where
  \<comment> \<open>\<^verbatim>\<open>obj.update(other)\<close> with a dict \<open>other\<close>: its pairs are stored in order\<close>
  "dict_update (JObj kvs) other = Inr (JObj (fold (\<lambda>kv. AList.update (fst kv) (snd kv)) other kvs))"
| "dict_update _ other = Inl (Raised AttributeError)"

fun list_append :: "json \<Rightarrow> json \<Rightarrow> json result" where
  \<comment> \<open>\<^verbatim>\<open>obj.append(x)\<close>: the updated list\<close>
  "list_append (JArr xs) x = Inr (JArr (xs @ [x]))"
| "list_append _ x = Inl (Raised AttributeError)"

definition basename :: "string \<Rightarrow> string" where
  \<comment> \<open>\<^verbatim>\<open>os.path.basename\<close> (POSIX): what follows the last slash\<close>
  "basename p = rev (takeWhile (\<lambda>c. c \<noteq> CHR ''/'') (rev p))"

section \<open>Requests, the client object and the environment of one run\<close>

datatype verb = GET | POST | PUT | DELETE

text \<open>
  The body of a request: none, \<^verbatim>\<open>json=...\<close>, \<^verbatim>\<open>data=json.dumps(...)\<close>, or
  \<^verbatim>\<open>data=fp\<close> with the path of the file that \<open>fp\<close> reads.
\<close>

datatype payload = NoBody | JsonBody json | DataText json | DataFile string

record request =
  meth :: verb
  req_url :: string
  params :: "(string \<times> string) list"
  headers :: "(string \<times> string) list"
  payload :: payload

text \<open>
  A response is its status code and what \<^verbatim>\<open>response.json()\<close> gives: \<open>None\<close> when the
  body does not decode, and the call raises.
\<close>

record response =
  status_code :: int
  body :: "json option"

text \<open>The fields of a \<^verbatim>\<open>Zenodo\<close> instance.\<close>

record zenodo =
  host :: string
  self_headers :: "(string \<times> string) list"
  self_params :: "(string \<times> string) list"

text \<open>
  What one run reads from outside the script: the process environment, the HTTP
  transport (given the requests attempted so far and the next one, a response or the
  exception that \<^verbatim>\<open>requests\<close> raises), the file system, the clock, and the
  interpreter's \<^verbatim>\<open>str\<close> on a value that is not a string.
  \<open>today\<close> is \<^verbatim>\<open>datetime.today().strftime("%Y-%m-%d")\<close>, the date of the local
  time zone; \<open>utc_today\<close> is the same instant's date in UTC, which the script never
  reads.
\<close>

record world =
  environ :: "string \<Rightarrow> string option"
  requests_send :: "request list \<Rightarrow> request \<Rightarrow> exc + response"
  path_exists :: "string \<Rightarrow> bool"
  abspath :: "string \<Rightarrow> string"
  glob :: "string \<Rightarrow> string list"
  can_open :: "string \<Rightarrow> bool"
  json_file :: "string \<Rightarrow> (string \<times> json) list result"
  today :: string
  utc_today :: string
  repr :: "json \<Rightarrow> string"

text \<open>
  What one run changes: the client object, the requests attempted (in order), the lines
  printed, and the text appended to files (path and text, in order).
\<close>

record state =
  self :: zenodo
  trace :: "request list"
  stdout :: "msg list"
  appended :: "(string \<times> string) list"

type_synonym 'a prog = "state \<Rightarrow> 'a result \<times> state"

definition ret :: "'a \<Rightarrow> 'a prog" where
  "ret x s = (Inr x, s)"

definition throw :: "error \<Rightarrow> 'a prog" where
  "throw e s = (Inl e, s)"

definition lift :: "'a result \<Rightarrow> 'a prog" where
  "lift r s = (r, s)"

definition bind :: "'a prog \<Rightarrow> ('a \<Rightarrow> 'b prog) \<Rightarrow> 'b prog" where
  "bind m f s = (case m s of (Inl e, s') \<Rightarrow> (Inl e, s') | (Inr x, s') \<Rightarrow> f x s')"

definition sys_exit :: "msg \<Rightarrow> 'a prog" where
  "sys_exit t = throw (Exit t)"

definition print :: "msg \<Rightarrow> unit prog" where
  "print t s = (Inr (), s\<lparr>stdout := stdout s @ [t]\<rparr>)"

definition py_str :: "world \<Rightarrow> json \<Rightarrow> string" where
  \<comment> \<open>\<^verbatim>\<open>"%s" % v\<close>\<close>
  "py_str w v = (case v of JStr s \<Rightarrow> s | _ \<Rightarrow> repr w v)"

definition http :: "world \<Rightarrow> request \<Rightarrow> response prog" where
  \<comment> \<open>one call of \<^verbatim>\<open>requests.get/post/put/delete\<close>\<close>
  "http w rq s =
     (case requests_send w (trace s) rq of
        Inl e \<Rightarrow> (Inl (Raised e), s\<lparr>trace := trace s @ [rq]\<rparr>)
      | Inr r \<Rightarrow> (Inr r, s\<lparr>trace := trace s @ [rq]\<rparr>))"

definition json_of :: "response \<Rightarrow> json result" where
  \<comment> \<open>\<^verbatim>\<open>response.json()\<close>\<close>
  "json_of r = (case body r of None \<Rightarrow> Inl (Raised JSONDecodeError) | Some j \<Rightarrow> Inr j)"

definition and_then :: "'a result \<Rightarrow> ('a \<Rightarrow> 'b result) \<Rightarrow> 'b result" where
  "and_then r f = (case r of Inl e \<Rightarrow> Inl e | Inr x \<Rightarrow> f x)"

fun for_each :: "('a \<Rightarrow> unit prog) \<Rightarrow> 'a list \<Rightarrow> unit prog" where
  \<comment> \<open>a \<^verbatim>\<open>for\<close> loop without \<^verbatim>\<open>break\<close>\<close>
  "for_each f [] = ret ()"
| "for_each f (x # xs) = bind (f x) (\<lambda>_. for_each f xs)"

definition request_of :: "zenodo \<Rightarrow> verb \<Rightarrow> string \<Rightarrow> bool \<Rightarrow> payload \<Rightarrow> request" where
  "request_of z m u with_headers p =
     \<lparr>meth = m, req_url = u, params = self_params z,
      headers = (if with_headers then self_headers z else []), payload = p\<rparr>"

definition send :: "world \<Rightarrow> verb \<Rightarrow> string \<Rightarrow> bool \<Rightarrow> payload \<Rightarrow> response prog" where
  \<comment> \<open>a call of \<^verbatim>\<open>requests\<close> with \<^verbatim>\<open>params=self.params\<close> and, when the flag is set,
      \<^verbatim>\<open>headers=self.headers\<close>\<close>
  "send w m u with_headers p s = http w (request_of (self s) m u with_headers p) s"

definition open_append :: "world \<Rightarrow> string option \<Rightarrow> string \<Rightarrow> unit prog" where
  \<comment> \<open>\<^verbatim>\<open>with open(path, "a") as f: f.write(line)\<close>; \<open>path\<close> may be \<^verbatim>\<open>None\<close>\<close>
  "open_append w path line s =
     (case path of
        None \<Rightarrow> (Inl (Raised TypeError), s)
      | Some p \<Rightarrow>
          if can_open w p then (Inr (), s\<lparr>appended := appended s @ [(p, line)]\<rparr>)
          else (Inl (Raised OSError), s))"

section \<open>The script\<close>

subsection \<open>\<^verbatim>\<open>set_env_and_output\<close> (lines 41 to 53)\<close>

definition set_env_and_output :: "world \<Rightarrow> string \<Rightarrow> json \<Rightarrow> unit prog" where
  "set_env_and_output w name val =
     for_each (\<lambda>env_var.
        let environment_file_path = environ w env_var in
        bind (print (Fmt ''Writing %s=%s to %s'' [AStr name, AJson val, AStr env_var])) (\<lambda>_.
        open_append w environment_file_path (name @ ''='' @ py_str w val @ ''\<newline>'')))
       [''GITHUB_ENV'', ''GITHUB_OUTPUT'']"

subsection \<open>The class \<^verbatim>\<open>Zenodo\<close> (lines 56 to 276)\<close>

definition set_host :: "bool \<Rightarrow> unit prog" where
  "set_host sandbox s =
     (Inr (), s\<lparr>self := (self s)\<lparr>host :=
        (if sandbox then ''sandbox.zenodo.org'' else ''zenodo.org'')\<rparr>\<rparr>)"

definition Zenodo :: "string \<Rightarrow> bool \<Rightarrow> unit prog" where
  \<comment> \<open>\<^verbatim>\<open>__init__\<close>; \<open>token\<close> is the module's \<^verbatim>\<open>ZENODO_TOKEN\<close>\<close>
  "Zenodo token sandbox s =
     set_host sandbox
       (s\<lparr>self := \<lparr>host = [], self_headers = [(''Accept'', ''application/json'')],
                    self_params = [(''access_token'', token)]\<rparr>\<rparr>)"

definition with_host :: "string \<Rightarrow> state \<Rightarrow> string" where
  \<comment> \<open>lines 78-79 and 86-87\<close>
  "with_host u s = (if \<not> startswith u ''http'' then ''https://'' @ host (self s) @ u else u)"

definition get :: "world \<Rightarrow> json \<Rightarrow> response prog" where
  "get w u s =
     (case u of
        JStr u' \<Rightarrow> send w GET (with_host u' s) True NoBody s
      | _ \<Rightarrow> (Inl (Raised AttributeError), s))"

definition post :: "world \<Rightarrow> json \<Rightarrow> response prog" where
  "post w u s =
     (case u of
        JStr u' \<Rightarrow> send w POST (with_host u' s) True NoBody s
      | _ \<Rightarrow> (Inl (Raised AttributeError), s))"

definition get_depositions :: "world \<Rightarrow> json prog" where
  "get_depositions w =
     bind (get w (JStr ''/api/deposit/depositions'')) (\<lambda>response.
       if status_code response \<notin> {200, 201} then
         bind (lift (json_of response)) (\<lambda>b.
           sys_exit (Fmt ''Cannot query depositions: %s, %s''
                       [AInt (status_code response), AJson b]))
       else lift (json_of response))"

text \<open>
  The loop of \<^verbatim>\<open>find_deposit\<close> (lines 109 to 119): \<open>None\<close> is the initial
  \<^verbatim>\<open>target_deposit\<close>, and a match ends the loop. (The message of line 115 ends with an
  emoji, left out here.)
\<close>

fun scan_deposits :: "string \<Rightarrow> json list \<Rightarrow> json option prog" where
  "scan_deposits doi [] = ret None"
| "scan_deposits doi (deposit # rest) =
     bind (lift (py_in ''doi'' deposit)) (\<lambda>has_doi.
       if \<not> has_doi then scan_deposits doi rest
       else
         bind (lift (getitem deposit ''doi'')) (\<lambda>d.
         bind (print (Fmt ''looking at deposit %s'' [AJson d])) (\<lambda>_.
         bind (lift (getitem deposit ''conceptdoi'')) (\<lambda>c.
           if c = JStr doi then
             bind (print (Fmt ''Found deposit %s! '' [AStr doi])) (\<lambda>_. ret (Some deposit))
           else scan_deposits doi rest))))"

definition find_deposit :: "world \<Rightarrow> string \<Rightarrow> json option prog" where
  "find_deposit w doi =
     bind (get_depositions w) (\<lambda>deposits.
     bind (lift (py_iter deposits)) (\<lambda>ds.
     scan_deposits doi ds))"

definition new_doi :: "world \<Rightarrow> json prog" where
  "new_doi w =
     bind (send w POST ''https://zenodo.org/api/deposit/depositions'' True (JsonBody (JObj []))) (\<lambda>response.
       if status_code response \<notin> {200, 201} then
         bind (lift (json_of response)) (\<lambda>b.
           sys_exit (Fmt ''Trouble requesting new upload: %s, %s''
                       [AInt (status_code response), AJson b]))
       else lift (json_of response))"

text \<open>
  \<^verbatim>\<open>update_doi\<close> in its four blocks: the lookup (lines 142 to 147), the choice of the
  draft (lines 149 to 160), the fetch of the latest draft (lines 162 to 166) and the
  removal of the files carried over (lines 168 to 177).
\<close>

definition choose_draft :: "world \<Rightarrow> string \<Rightarrow> json \<Rightarrow> json prog" where
  "choose_draft w doi target_deposit =
     bind (lift (getitem target_deposit ''submitted'')) (\<lambda>submitted.
       if \<not> truthy submitted then ret target_deposit
       else
         bind (lift (getitem target_deposit ''links'')) (\<lambda>links.
         bind (lift (getitem links ''newversion'')) (\<lambda>newversion.
         bind (post w newversion) (\<lambda>response.
           if status_code response \<notin> {200, 201} then
             bind (lift (json_of response)) (\<lambda>b.
               sys_exit (Fmt ''Cannot create a new version for doi '%s'. %s''
                           [AStr doi, AJson b]))
           else lift (json_of response)))))"

definition fetch_draft :: "world \<Rightarrow> string \<Rightarrow> json \<Rightarrow> json prog" where
  "fetch_draft w doi draft =
     bind (lift (getitem draft ''links'')) (\<lambda>links.
     bind (lift (getitem links ''latest_draft'')) (\<lambda>latest_draft.
     bind (get w latest_draft) (\<lambda>response.
       if status_code response \<notin> {200, 201} then
         bind (lift (json_of response)) (\<lambda>b.
           sys_exit (Fmt ''Cannot create a draft for doi '%s'. %s'' [AStr doi, AJson b]))
       else lift (json_of response))))"

definition delete_file :: "world \<Rightarrow> json \<Rightarrow> unit prog" where
  \<comment> \<open>the body of the loop of lines 170 to 177\<close>
  "delete_file w file =
     bind (lift (getitem file ''links'')) (\<lambda>links.
     bind (lift (getitem links ''self'')) (\<lambda>self_url.
     bind (send w DELETE (py_str w self_url) True NoBody) (\<lambda>response.
       if status_code response \<notin> {200, 204} then
         bind (lift (getitem file ''filename'')) (\<lambda>filename.
         bind (lift (json_of response)) (\<lambda>b.
           print (Fmt ''could not delete file %s: %s'' [AJson filename, AJson b])))
       else ret ())))"

definition remove_files :: "world \<Rightarrow> json \<Rightarrow> unit prog" where
  "remove_files w new_version =
     bind (lift (py_get new_version ''files'' (JArr []))) (\<lambda>files.
     bind (lift (py_iter files)) (\<lambda>fs.
     for_each (delete_file w) fs))"

definition update_doi :: "world \<Rightarrow> string \<Rightarrow> json prog" where
  "update_doi w doi =
     bind (find_deposit w doi) (\<lambda>target_deposit.
       case target_deposit of
         None \<Rightarrow>
           sys_exit (Fmt ''Cannot find deposit with doi: '%s'. Are you currently editing it?''
                       [AStr doi])
       | Some target \<Rightarrow>
           if \<not> truthy target then
             sys_exit (Fmt ''Cannot find deposit with doi: '%s'. Are you currently editing it?''
                         [AStr doi])
           else
             bind (choose_draft w doi target) (\<lambda>draft.
             bind (fetch_draft w doi draft) (\<lambda>new_version.
             bind (remove_files w new_version) (\<lambda>_.
             ret new_version))))"

definition Zenodo_upload_archive :: "world \<Rightarrow> json \<Rightarrow> string \<Rightarrow> unit prog" where
  \<comment> \<open>the verb \<^verbatim>\<open>Zenodo.upload_archive\<close> (lines 180 to 198)\<close>
  "Zenodo_upload_archive w upload archive =
     bind (lift (getitem upload ''links'')) (\<lambda>links.
     bind (lift (getitem links ''bucket'')) (\<lambda>bucket_url.
       if \<not> can_open w archive then throw (Raised OSError)
       else
         bind (send w PUT (py_str w bucket_url @ ''/'' @ basename archive) False (DataFile archive))
           (\<lambda>response.
             if status_code response \<notin> {200, 201} then
               sys_exit (Fmt
                 ''Trouble uploading artifact %s to bucket with response code %s''
                 [AStr archive, AInt (status_code response)])
             else ret ())))"

definition publish :: "world \<Rightarrow> json \<Rightarrow> unit prog" where
  "publish w data =
     bind (lift (getitem data ''links'')) (\<lambda>links.
     bind (lift (getitem links ''publish'')) (\<lambda>publish_url.
     bind (send w POST (py_str w publish_url) False NoBody) (\<lambda>r.
     bind (if status_code r \<notin> {200, 201, 202} then
             bind (lift (json_of r)) (\<lambda>b.
               sys_exit (Fmt ''Issue publishing record: %s, %s'' [AInt (status_code r), AJson b]))
           else ret ()) (\<lambda>_.
     bind (lift (json_of r)) (\<lambda>published.
     bind (print (Fmt ''::group::Record'' [])) (\<lambda>_.
     bind (print (Dumps published)) (\<lambda>_.
     bind (print (Fmt ''::endgroup::'' [])) (\<lambda>_.
     bind (lift (getitem published ''links'')) (\<lambda>plinks.
     bind (lift (py_items plinks)) (\<lambda>kvs.
     for_each (\<lambda>kv. set_env_and_output w (fst kv) (snd kv)) kvs))))))))))"

text \<open>
  \<^verbatim>\<open>upload_metadata\<close>: the metadata before the update of the client's headers (lines 231
  to 241, of which lines 231 to 235 merge the template), the overrides after it (lines 245
  to 262), and the call (lines 264 to 276).
  An option is \<^verbatim>\<open>None\<close> or a string; \<open>description_file\<close> is what reading the open file
  gives. The template document is a JSON object.
\<close>

definition given :: "string option \<Rightarrow> bool" where
  \<comment> \<open>the truth value of an optional string: neither \<^verbatim>\<open>None\<close> nor empty\<close>
  "given x = (case x of None \<Rightarrow> False | Some v \<Rightarrow> v \<noteq> [])"

definition template_merge :: "world \<Rightarrow> json \<Rightarrow> string option \<Rightarrow> json result" where
  \<comment> \<open>lines 231 to 235: the metadata of the deposition, updated from the template\<close>
  "template_merge w upload zenodo_json =
     and_then (getitem upload ''metadata'') (\<lambda>metadata.
       case zenodo_json of
         None \<Rightarrow> Inr metadata
       | Some f \<Rightarrow>
           if f = [] then Inr metadata
           else (case metadata of
                   JObj _ \<Rightarrow> and_then (json_file w f) (dict_update metadata)
                 | _ \<Rightarrow> Inl (Raised AttributeError)))"

definition metadata_fixed :: "world \<Rightarrow> json \<Rightarrow> string option \<Rightarrow> string \<Rightarrow> json result" where
  \<comment> \<open>lines 231 to 241\<close>
  "metadata_fixed w upload zenodo_json version =
     and_then (template_merge w upload zenodo_json) (\<lambda>metadata.
     and_then (setitem metadata ''version'' (JStr version)) (\<lambda>metadata.
     and_then (setitem metadata ''publication_date'' (JStr (today w))) (\<lambda>metadata.
     and_then (py_in ''upload_type'' metadata) (\<lambda>has_type.
       if \<not> has_type then setitem metadata ''upload_type'' (JStr ''software'')
       else Inr metadata))))"

fun setdefault :: "json \<Rightarrow> string \<Rightarrow> json \<Rightarrow> json result" where
  \<comment> \<open>\<^verbatim>\<open>obj.setdefault(key, default)\<close>: the updated object\<close>
  "setdefault (JObj kvs) k d = Inr (JObj (if k \<in> set (map fst kvs) then kvs else kvs @ [(k, d)]))"
| "setdefault _ k d = Inl (Raised AttributeError)"

definition metadata_overrides ::
  "json \<Rightarrow> string option \<Rightarrow> string option \<Rightarrow> string option \<Rightarrow> string option \<Rightarrow> json result" where
  "metadata_overrides metadata html_url title description description_file =
     and_then (case html_url of
                 None \<Rightarrow> Inr metadata
               | Some u \<Rightarrow>
                   if u = [] then Inr metadata
                   else
                     and_then (setdefault metadata ''related_identifiers'' (JArr [])) (\<lambda>metadata.
                     and_then (getitem metadata ''related_identifiers'') (\<lambda>ids.
                     and_then (list_append ids
                                 (JObj [(''identifier'', JStr u),
                                        (''relation'', JStr ''isSupplementTo''),
                                        (''resource_type'', JStr ''software''),
                                        (''scheme'', JStr ''url'')])) (\<lambda>ids'.
                     setitem metadata ''related_identifiers'' ids')))) (\<lambda>metadata.
     and_then (case title of
                 None \<Rightarrow> Inr metadata
               | Some t \<Rightarrow> setitem metadata ''title'' (JStr t)) (\<lambda>metadata.
       case description of
         Some d \<Rightarrow> setitem metadata ''description'' (JStr d)
       | None \<Rightarrow>
           (case description_file of
              Some content \<Rightarrow> setitem metadata ''description'' (JStr content)
            | None \<Rightarrow> Inr metadata)))"

definition headers_update :: "string \<Rightarrow> string \<Rightarrow> unit prog" where
  \<comment> \<open>\<^verbatim>\<open>self.headers.update({k: v})\<close>\<close>
  "headers_update k v s =
     (Inr (), s\<lparr>self := (self s)\<lparr>self_headers := AList.update k v (self_headers (self s))\<rparr>\<rparr>)"

definition upload_metadata ::
  "world \<Rightarrow> json \<Rightarrow> string option \<Rightarrow> string \<Rightarrow> string option \<Rightarrow> string option \<Rightarrow>
   string option \<Rightarrow> string option \<Rightarrow> json prog" where
  "upload_metadata w upload zenodo_json version html_url title description description_file =
     bind (lift (metadata_fixed w upload zenodo_json version)) (\<lambda>metadata.
     bind (headers_update ''Content-Type'' ''application/json'') (\<lambda>_.
     bind (lift (metadata_overrides metadata html_url title description description_file))
       (\<lambda>metadata.
     bind (lift (getitem upload ''id'')) (\<lambda>ident.
     bind (send w PUT (''https://zenodo.org/api/deposit/depositions/'' @ py_str w ident) True
             (DataText (JObj [(''metadata'', metadata)]))) (\<lambda>response.
       if status_code response \<noteq> 200 then
         bind (lift (json_of response)) (\<lambda>b.
           sys_exit (Fmt ''Trouble uploading metadata %s, %s''
                       [AInt (status_code response), AJson b]))
       else lift (json_of response))))))"

subsection \<open>The function \<^verbatim>\<open>upload_archive\<close> (lines 279 to 322)\<close>

definition upload_archive ::
  "world \<Rightarrow> string \<Rightarrow> string \<Rightarrow> string \<Rightarrow> string option \<Rightarrow> string option \<Rightarrow> string option \<Rightarrow>
   bool \<Rightarrow> string option \<Rightarrow> string option \<Rightarrow> string option \<Rightarrow> unit prog" where
  \<comment> \<open>\<open>token\<close> is the module's \<^verbatim>\<open>ZENODO_TOKEN\<close>; the other arguments are the source's, in
      its order\<close>
  "upload_archive w token archive0 version html_url zenodo_json doi sandbox title description
     description_file =
     (let archive = abspath w archive0 in
      if \<not> path_exists w archive then sys_exit (Fmt ''Archive %s does not exist.'' [AStr archive])
      else
        bind (Zenodo token sandbox) (\<lambda>_.
        bind (case doi of
                Some d \<Rightarrow>
                  if d \<noteq> [] then update_doi w d
                  else if \<not> given zenodo_json then
                    sys_exit (Fmt ''You MUST provided a .zenodo.json template to create a new DOI.'' [])
                  else new_doi w
              | None \<Rightarrow>
                  if \<not> given zenodo_json then
                    sys_exit (Fmt ''You MUST provided a .zenodo.json template to create a new DOI.'' [])
                  else new_doi w) (\<lambda>upload.
        bind (for_each (\<lambda>path. Zenodo_upload_archive w upload path) (glob w archive)) (\<lambda>_.
        bind (upload_metadata w upload zenodo_json version html_url title description
                description_file) (\<lambda>data.
        publish w data)))))"

definition load_token :: "world \<Rightarrow> string result" where
  \<comment> \<open>lines 36 to 38, run when the module is loaded\<close>
  "load_token w =
     (case environ w ''ZENODO_TOKEN'' of
        None \<Rightarrow> Inl (Exit (Fmt ''A ZENODO_TOKEN is required to be exported in the environment!'' []))
      | Some t \<Rightarrow>
          if t = [] then
            Inl (Exit (Fmt ''A ZENODO_TOKEN is required to be exported in the environment!'' []))
          else Inr t)"

text \<open>The state before the client exists.\<close>

definition initial :: state where
  "initial = \<lparr>self = \<lparr>host = [], self_headers = [], self_params = []\<rparr>,
              trace = [], stdout = [], appended = []\<rparr>"

text \<open>
  The host of an \<^verbatim>\<open>https\<close> URL: what stands between the scheme and the next slash.
  It states where a request is sent; the script has no such function.
\<close>

definition url_host :: "string \<Rightarrow> string" where
  "url_host u = takeWhile (\<lambda>c. c \<noteq> CHR ''/'') (drop (length ''https://'') u)"

section \<open>A sample run\<close>

text \<open>
  The production host holds three depositions: deposition 2 is published under the
  concept DOI \<open>10.5281/zenodo.1\<close>, deposition 8 is a draft under the concept DOI
  \<open>10.5281/zenodo.7\<close>, and deposition 9 is a draft that has no DOI yet. Asking for a
  new version of deposition 2 gives draft 3, which carries over the file \<open>old.zip\<close>.
\<close>

definition api :: string where
  "api = ''https://zenodo.org/api/deposit/depositions''"

definition deposit9 :: json where
  "deposit9 = JObj [(''id'', JNum 9), (''submitted'', JBool False)]"

definition deposit8 :: json where
  "deposit8 = JObj
     [(''id'', JNum 8),
      (''doi'', JStr ''10.5281/zenodo.8''),
      (''conceptdoi'', JStr ''10.5281/zenodo.7''),
      (''submitted'', JBool False),
      (''links'', JObj [(''latest_draft'', JStr (api @ ''/8''))])]"

definition deposit2 :: json where
  "deposit2 = JObj
     [(''id'', JNum 2),
      (''doi'', JStr ''10.5281/zenodo.2''),
      (''conceptdoi'', JStr ''10.5281/zenodo.1''),
      (''submitted'', JBool True),
      (''links'', JObj [(''newversion'', JStr (api @ ''/2/actions/newversion''))])]"

definition old_file :: json where
  "old_file = JObj
     [(''filename'', JStr ''old.zip''),
      (''links'', JObj [(''self'', JStr (api @ ''/3/files/f1''))])]"

definition draft3 :: json where
  "draft3 = JObj
     [(''id'', JNum 3),
      (''submitted'', JBool False),
      (''metadata'', JObj [(''title'', JStr ''old title''), (''version'', JStr ''0.9'')]),
      (''links'', JObj [(''bucket'', JStr ''https://zenodo.org/api/files/b3''),
                        (''publish'', JStr (api @ ''/3/actions/publish'')),
                        (''latest_draft'', JStr (api @ ''/3''))]),
      (''files'', JArr [old_file])]"

definition draft8 :: json where
  "draft8 = JObj
     [(''id'', JNum 8),
      (''submitted'', JBool False),
      (''metadata'', JObj [(''title'', JStr ''draft'')]),
      (''links'', JObj [(''bucket'', JStr ''https://zenodo.org/api/files/b8''),
                        (''publish'', JStr (api @ ''/8/actions/publish'')),
                        (''latest_draft'', JStr (api @ ''/8''))])]"

definition record3 :: json where
  "record3 = JObj [(''id'', JNum 3),
                   (''links'', JObj [(''html'', JStr ''https://zenodo.org/records/3'')])]"

definition ok :: "int \<Rightarrow> json \<Rightarrow> exc + response" where
  "ok code j = Inr \<lparr>status_code = code, body = Some j\<rparr>"

definition routes :: "((verb \<times> string) \<times> (exc + response)) list" where
  "routes =
     [((GET, api), ok 200 (JArr [deposit9, deposit8, deposit2])),
      ((GET, api @ ''/8''), ok 200 draft8),
      ((POST, api @ ''/2/actions/newversion''),
         ok 201 (JObj [(''links'', JObj [(''latest_draft'', JStr (api @ ''/3''))])])),
      ((GET, api @ ''/3''), ok 200 draft3),
      ((DELETE, api @ ''/3/files/f1''), Inr \<lparr>status_code = 204, body = None\<rparr>),
      ((PUT, ''https://zenodo.org/api/files/b3/a.zip''), ok 201 (JObj [])),
      ((PUT, api @ ''/3''), ok 200 draft3),
      ((POST, api @ ''/3/actions/publish''), ok 202 record3)]"

definition sample :: world where
  "sample =
     \<lparr>environ = map_of [(''ZENODO_TOKEN'', ''secret''), (''GITHUB_ENV'', ''/gh/env''),
                         (''GITHUB_OUTPUT'', ''/gh/output'')],
      requests_send = (\<lambda>tr rq.
         case map_of routes (meth rq, req_url rq) of
           Some r \<Rightarrow> r
         | None \<Rightarrow> ok 404 (JObj [(''message'', JStr ''not found'')])),
      path_exists = (\<lambda>p. p \<in> set [''/repo'', ''/repo/a.zip'', ''/repo/b.zip'', ''/repo/zenodo.json'']),
      abspath = (\<lambda>p. if startswith p ''/'' then p else ''/repo/'' @ p),
      glob = (\<lambda>p. if p = ''/repo/*.zip'' then [''/repo/a.zip'', ''/repo/b.zip'']
                   else if p \<in> set [''/repo'', ''/repo/a.zip'', ''/repo/b.zip'', ''/repo/zenodo.json'']
                   then [p] else []),
      can_open = (\<lambda>p. p \<noteq> ''/repo''),
      json_file = (\<lambda>p. if p = ''/repo/zenodo.json''
                        then Inr [(''title'', JStr ''template title''), (''version'', JStr ''0.0''),
                                  (''upload_type'', JStr ''dataset'')]
                        else Inl (Raised OSError)),
      today = ''2024-03-01'',
      utc_today = ''2024-03-01'',
      repr = (\<lambda>j. case j of JNum n \<Rightarrow> (if n = 3 then ''3'' else ''?'') | _ \<Rightarrow> ''?'')\<rparr>"

text \<open>The client of the sample run, before its first request.\<close>

definition client :: state where
  "client = snd (Zenodo ''secret'' False initial)"


text \<open>The same run outside of a workflow: no \<^verbatim>\<open>GITHUB_ENV\<close> and no \<^verbatim>\<open>GITHUB_OUTPUT\<close>.\<close>

definition outside_workflow :: world where
  "outside_workflow = sample\<lparr>environ := map_of [(''ZENODO_TOKEN'', ''secret'')]\<rparr>"

text \<open>A listing whose only deposition has a \<open>doi\<close> and no \<open>conceptdoi\<close>.\<close>

definition bare_listing :: world where
  "bare_listing =
     sample\<lparr>requests_send :=
       (\<lambda>tr rq. ok 200 (JArr [JObj [(''doi'', JStr ''10.5281/zenodo.2'')]]))\<rparr>"

section \<open>Notions used to state the properties\<close>

text \<open>A value that is a dict, and a dict that has a key.\<close>

fun is_dict :: "json \<Rightarrow> bool" where
  "is_dict (JObj kvs) = True"
| "is_dict _ = False"

fun has_key :: "json \<Rightarrow> string \<Rightarrow> bool" where
  "has_key (JObj kvs) k = (k \<in> set (map fst kvs))"
| "has_key _ k = False"

text \<open>The deposit that the loop of \<^verbatim>\<open>find_deposit\<close> looks for (lines 111 and 114).\<close>

definition matches :: "string \<Rightarrow> json \<Rightarrow> bool" where
  "matches doi d = (has_key d ''doi'' \<and> getitem d ''conceptdoi'' = Inr (JStr doi))"

text \<open>The request of \<^verbatim>\<open>get_depositions\<close> (line 94), as a client sends it.\<close>

definition list_request :: "zenodo \<Rightarrow> request" where
  "list_request z = request_of z GET (''https://'' @ host z @ ''/api/deposit/depositions'') True NoBody"

text \<open>
  From \<open>s\<close> to \<open>s'\<close> the client is the same and every request attempted is a
  \<^verbatim>\<open>DELETE\<close>.
\<close>

definition only_deletes :: "state \<Rightarrow> state \<Rightarrow> bool" where
  "only_deletes s s' =
     (self s' = self s \<and>
      (\<exists>rest. trace s' = trace s @ rest \<and> list_all (\<lambda>r. meth r = DELETE) rest))"

text \<open>The requests attempted after the state \<open>s\<close>, up to the state \<open>s'\<close>.\<close>

definition since :: "state \<Rightarrow> state \<Rightarrow> request list" where
  "since s s' = drop (length (trace s)) (trace s')"

text \<open>What follows the choice of the draft in \<^verbatim>\<open>update_doi\<close> (lines 162 to 178).\<close>

definition finish :: "world \<Rightarrow> string \<Rightarrow> json \<Rightarrow> json prog" where
  "finish w doi draft =
     bind (fetch_draft w doi draft) (\<lambda>new_version.
     bind (remove_files w new_version) (\<lambda>_. ret new_version))"

text \<open>The \<^verbatim>\<open>PUT\<close> of \<^verbatim>\<open>upload_metadata\<close> (line 266), for the metadata \<open>md\<close> and the id \<open>ident\<close>.\<close>

definition metadata_request :: "world \<Rightarrow> state \<Rightarrow> json \<Rightarrow> json \<Rightarrow> request" where
  "metadata_request w s ident md =
     request_of ((self s)\<lparr>self_headers :=
                   AList.update ''Content-Type'' ''application/json'' (self_headers (self s))\<rparr>)
       PUT (''https://zenodo.org/api/deposit/depositions/'' @ py_str w ident) True
       (DataText (JObj [(''metadata'', md)]))"

text \<open>
  What \<^verbatim>\<open>sys.exit(fmt % (args, response.json()))\<close> gives: the exit whose message has the
  format \<open>fmt\<close> and the arguments \<open>args\<close> followed by the body of the answer, or the
  error of \<^verbatim>\<open>response.json()\<close> when the body is no JSON document.
\<close>

definition refused :: "response \<Rightarrow> string \<Rightarrow> arg list \<Rightarrow> 'a result" where
  "refused r fmt args =
     (case body r of
        None \<Rightarrow> Inl (Raised JSONDecodeError)
      | Some b \<Rightarrow> Inl (Exit (Fmt fmt (args @ [AJson b]))))"

text \<open>An argument of a message: what the message embeds.\<close>

fun embeds :: "msg \<Rightarrow> arg \<Rightarrow> bool" where
  "embeds (Fmt fmt args) a = (a \<in> set args)"
| "embeds (Dumps j) a = False"

text \<open>
  A server in trouble: it answers the calls listed as the sample server does, and every
  other call with the status 500 and the body \<open>server_error\<close>.
\<close>

definition server_error :: json where
  "server_error = JObj [(''message'', JStr ''internal server error'')]"

definition down_except :: "(verb \<times> string) list \<Rightarrow> world" where
  "down_except served =
     sample\<lparr>requests_send := (\<lambda>tr rq.
       if (meth rq, req_url rq) \<in> set served then requests_send sample tr rq
       else ok 500 server_error)\<rparr>"

section \<open>The state and error monad\<close>

lemma bind_ret [simp]: "bind (ret x) f = f x"
  by (rule ext) (simp add: bind_def ret_def)

lemma bind_throw [simp]: "bind (throw e) f = throw e"
  by (rule ext) (simp add: bind_def throw_def)

lemma bind_lift_Inr [simp]: "bind (lift (Inr x)) f = f x"
  by (rule ext) (simp add: bind_def lift_def)

lemma bind_lift_Inl [simp]: "bind (lift (Inl e)) f = throw e"
  by (rule ext) (simp add: bind_def lift_def throw_def)

lemma bind_print [simp]: "bind (print t) f s = f () (s\<lparr>stdout := stdout s @ [t]\<rparr>)"
  by (simp add: bind_def print_def)

lemma trace_bind_send:
  "trace (snd (bind (send w m u h p) f s)) =
     (case requests_send w (trace s) (request_of (self s) m u h p) of
        Inl e \<Rightarrow> trace s @ [request_of (self s) m u h p]
      | Inr r \<Rightarrow> trace (snd (f r (s\<lparr>trace := trace s @ [request_of (self s) m u h p]\<rparr>))))"
  by (simp add: bind_def send_def http_def split: sum.splits)

lemma trace_check [simp]:
  "trace (snd ((if c then bind (lift (json_of r)) (\<lambda>b. sys_exit (g b)) else lift (json_of r)) s))
     = trace s"
  by (simp add: json_of_def sys_exit_def throw_def lift_def split: option.splits)

lemma Zenodo_initial:
  "snd (Zenodo token sandbox initial) =
     \<lparr>self = \<lparr>host = (if sandbox then ''sandbox.zenodo.org'' else ''zenodo.org''),
              self_headers = [(''Accept'', ''application/json'')],
              self_params = [(''access_token'', token)]\<rparr>,
      trace = [], stdout = [], appended = []\<rparr>"
  by (simp add: Zenodo_def set_host_def initial_def)

section \<open>The host of a request\<close>

text \<open>
  C1. Every call of a client built with the sandbox option should go to
  \<open>sandbox.zenodo.org\<close>. The code does not do so: \<^verbatim>\<open>new_doi\<close> and
  \<^verbatim>\<open>upload_metadata\<close> write the production host into their URL. Here a client built
  with \<^verbatim>\<open>sandbox=True\<close> has the sandbox host, yet the one request of \<^verbatim>\<open>new_doi\<close> and the one
  request of \<^verbatim>\<open>upload_metadata\<close> go to \<open>zenodo.org\<close>, whatever the transport answers.
\<close>

theorem sandbox_client_calls_production:
  "host (self (snd (Zenodo token True initial))) = ''sandbox.zenodo.org'' \<and>
   map (\<lambda>r. url_host (req_url r)) (trace (snd (new_doi w (snd (Zenodo token True initial)))))
     = [''zenodo.org''] \<and>
   map (\<lambda>r. url_host (req_url r))
     (trace (snd (upload_metadata w (JObj [(''id'', JNum 7), (''metadata'', JObj [])])
                    None ''1.0'' None None None None (snd (Zenodo token True initial)))))
     = [''zenodo.org'']"
proof -
  let ?s = "snd (Zenodo token True initial)"
  have a: "host (self ?s) = ''sandbox.zenodo.org''"
    by (simp add: Zenodo_initial)
  have b: "map (\<lambda>r. url_host (req_url r)) (trace (snd (new_doi w ?s))) = [''zenodo.org'']"
    unfolding Zenodo_initial new_doi_def
    by (simp add: trace_bind_send request_of_def url_host_def split: sum.splits)
  have m: "metadata_fixed w (JObj [(''id'', JNum 7), (''metadata'', JObj [])]) None ''1.0''
             = Inr (JObj [(''version'', JStr ''1.0''), (''publication_date'', JStr (today w)),
                          (''upload_type'', JStr ''software'')])"
    by (simp add: metadata_fixed_def template_merge_def and_then_def)
  have c: "map (\<lambda>r. url_host (req_url r))
     (trace (snd (upload_metadata w (JObj [(''id'', JNum 7), (''metadata'', JObj [])])
                    None ''1.0'' None None None None ?s))) = [''zenodo.org'']"
    unfolding Zenodo_initial upload_metadata_def m
    by (simp add: metadata_overrides_def and_then_def headers_update_def
        bind_def[of "headers_update _ _"] trace_bind_send request_of_def url_host_def
        split: sum.splits)
  from a b c show ?thesis by blast
qed

section \<open>Evaluating a run\<close>

lemmas run_defs =
  send_def http_def request_of_def json_of_def sys_exit_def open_append_def py_str_def
  bind_def lift_def ret_def throw_def print_def ok_def with_host_def startswith_def

lemmas sample_defs =
  sample_def routes_def api_def deposit2_def deposit8_def deposit9_def draft3_def draft8_def
  record3_def old_file_def

section \<open>The outputs of a publication\<close>

text \<open>
  C3. After a publication every link of the record should be appended to the files named
  by \<^verbatim>\<open>GITHUB_ENV\<close> and \<^verbatim>\<open>GITHUB_OUTPUT\<close> when these are set, and a variable that is
  not set should not make the run fail. The code does fail: \<^verbatim>\<open>set_env_and_output\<close>
  opens \<^verbatim>\<open>os.environ.get(env_var)\<close> whatever it is. Outside of a workflow the
  publication request is sent and answered 202, and the run then ends with a
  \<^verbatim>\<open>TypeError\<close> at the first link.
\<close>

theorem publish_fails_outside_workflow:
  "environ outside_workflow ''GITHUB_ENV'' = None \<and>
   fst (publish outside_workflow draft3 (snd (Zenodo ''secret'' False initial)))
     = Inl (Raised TypeError) \<and>
   map meth (trace (snd (publish outside_workflow draft3 (snd (Zenodo ''secret'' False initial)))))
     = [POST]"
  unfolding Zenodo_initial
  by (simp add: publish_def set_env_and_output_def run_defs outside_workflow_def sample_defs)

section \<open>The archive argument\<close>

text \<open>
  C4. An archive argument that is a glob pattern should have each file it matches
  uploaded. The code does not get that far: it first asks whether the pattern itself is
  the path of a file. In the sample run \<open>*.zip\<close> matches two files, and the run ends on
  line 295 before any request.
\<close>

theorem glob_pattern_is_rejected:
  "glob sample (abspath sample ''*.zip'') = [''/repo/a.zip'', ''/repo/b.zip''] \<and>
   upload_archive sample ''secret'' ''*.zip'' ''1.0'' None (Some ''/repo/zenodo.json'') None False
     None None None initial
     = (Inl (Exit (Fmt ''Archive %s does not exist.'' [AStr ''/repo/*.zip''])), initial)"
  by (simp add: upload_archive_def sample_def startswith_def sys_exit_def throw_def)

section \<open>The scan of the depositions\<close>

lemma getitem_has_key: "has_key d k \<Longrightarrow> \<exists>v. getitem d k = Inr v"
  by (cases d) (auto simp: map_of_eq_None_iff image_iff split: option.splits)

lemma getitem_Inr_has_key: "getitem d k = Inr v \<Longrightarrow> has_key d k"
  by (cases d) (auto split: option.splits dest: map_of_SomeD intro: rev_image_eqI)

lemma py_in_dict: "is_dict d \<Longrightarrow> py_in k d = Inr (has_key d k)"
  by (cases d) auto

lemma scan_skip:
  "is_dict d \<Longrightarrow> \<not> has_key d ''doi'' \<Longrightarrow>
   scan_deposits doi (d # rest) = scan_deposits doi rest"
  by (simp add: py_in_dict)

lemma scan_result_has_doi:
  "fst (scan_deposits doi ds s) = Inr (Some m) \<Longrightarrow> has_key m ''doi'' \<and> m \<in> set ds"
proof (induction ds arbitrary: s)
  case Nil
  then show ?case by (simp add: ret_def)
next
  case (Cons d ds)
  show ?case
  proof (cases "py_in ''doi'' d")
    case (Inl e)
    with Cons.prems show ?thesis by (simp add: throw_def)
  next
    case (Inr b)
    note b = this
    show ?thesis
    proof (cases b)
      case False
      with Cons b show ?thesis by simp
    next
      case True
      show ?thesis
      proof (cases "getitem d ''doi''")
        case (Inl e)
        with Cons.prems b True show ?thesis by (simp add: throw_def)
      next
        case (Inr v)
        note v = this
        then have hk: "has_key d ''doi''" by (rule getitem_Inr_has_key)
        show ?thesis
        proof (cases "getitem d ''conceptdoi''")
          case (Inl e)
          with Cons.prems b True v show ?thesis by (simp add: throw_def)
        next
          case (Inr c)
          with Cons b True v hk show ?thesis
            by (auto simp: ret_def split: if_splits)
        qed
      qed
    qed
  qed
qed

lemma scan_total:
  "\<forall>d\<in>set ds. is_dict d \<and> (has_key d ''doi'' \<longrightarrow> has_key d ''conceptdoi'') \<Longrightarrow>
   fst (scan_deposits doi ds s) = Inr (find (matches doi) ds)"
proof (induction ds arbitrary: s)
  case Nil
  then show ?case by (simp add: ret_def)
next
  case (Cons d ds)
  then have dict: "is_dict d" and cd: "has_key d ''doi'' \<Longrightarrow> has_key d ''conceptdoi''"
    and IH: "\<And>s. fst (scan_deposits doi ds s) = Inr (find (matches doi) ds)"
    by auto
  show ?case
  proof (cases "has_key d ''doi''")
    case False
    then have "\<not> matches doi d" by (simp add: matches_def)
    with False show ?thesis using dict IH by (simp add: py_in_dict)
  next
    case True
    then obtain v where v: "getitem d ''doi'' = Inr v"
      using getitem_has_key by blast
    from True cd obtain c where c: "getitem d ''conceptdoi'' = Inr c"
      using getitem_has_key by blast
    have "matches doi d \<longleftrightarrow> c = JStr doi" using True c by (simp add: matches_def)
    then show ?thesis using True dict v c IH
      by (simp add: py_in_dict ret_def)
  qed
qed

lemma scan_KeyError:
  "fst (scan_deposits doi [JObj [(''doi'', JStr ''10.5281/zenodo.2'')]] s)
     = Inl (Raised (KeyError ''conceptdoi''))"
  by (simp add: throw_def)

text \<open>
  C10. In the scan of \<^verbatim>\<open>find_deposit\<close>, a deposition without a \<open>doi\<close> key is skipped and
  is never the deposit returned. When every deposition that has a \<open>doi\<close> key also has a
  \<open>conceptdoi\<close> key, the scan returns, and what it returns is the first match or none.
  Without that precondition it need not return: a deposition with \<open>doi\<close> and without
  \<open>conceptdoi\<close> raises \<^verbatim>\<open>KeyError\<close> on line 114.
\<close>

theorem find_deposit_scan:
  "(is_dict d \<and> \<not> has_key d ''doi'' \<longrightarrow>
      scan_deposits doi (d # rest) = scan_deposits doi rest) \<and>
   (fst (scan_deposits doi ds s) = Inr (Some m) \<longrightarrow> has_key m ''doi'' \<and> m \<in> set ds) \<and>
   ((\<forall>x\<in>set ds. is_dict x \<and> (has_key x ''doi'' \<longrightarrow> has_key x ''conceptdoi'')) \<longrightarrow>
      fst (scan_deposits doi ds s) = Inr (find (matches doi) ds)) \<and>
   fst (scan_deposits doi [JObj [(''doi'', JStr ''10.5281/zenodo.2'')]] s)
     = Inl (Raised (KeyError ''conceptdoi''))"
  using scan_skip scan_result_has_doi scan_total scan_KeyError by blast

theorem find_deposit_scan_witness:
  "scan_deposits ''10.5281/zenodo.1'' [deposit9, deposit2]
     = scan_deposits ''10.5281/zenodo.1'' [deposit2] \<and>
   fst (scan_deposits ''10.5281/zenodo.1'' [deposit9, deposit2] initial) = Inr (Some deposit2) \<and>
   has_key deposit2 ''doi'' \<and>
   fst (scan_deposits ''10.5281/zenodo.1'' [JObj [(''doi'', JStr ''10.5281/zenodo.2'')]] initial)
     = Inl (Raised (KeyError ''conceptdoi''))"
proof -
  note T = find_deposit_scan [where d = deposit9 and doi = "''10.5281/zenodo.1''"
      and rest = "[deposit2]" and ds = "[deposit9, deposit2]" and s = initial and m = deposit2]
  have h1: "is_dict deposit9 \<and> \<not> has_key deposit9 ''doi''"
    by (simp add: deposit9_def)
  have h3: "\<forall>x\<in>set [deposit9, deposit2].
              is_dict x \<and> (has_key x ''doi'' \<longrightarrow> has_key x ''conceptdoi'')"
    by (simp add: deposit9_def deposit2_def)
  have f: "find (matches ''10.5281/zenodo.1'') [deposit9, deposit2] = Some deposit2"
    by (simp add: matches_def deposit9_def deposit2_def)
  from T h1 have a: "scan_deposits ''10.5281/zenodo.1'' [deposit9, deposit2]
                       = scan_deposits ''10.5281/zenodo.1'' [deposit2]"
    by blast
  from T h3 f have b:
    "fst (scan_deposits ''10.5281/zenodo.1'' [deposit9, deposit2] initial) = Inr (Some deposit2)"
    by simp
  from T b have c: "has_key deposit2 ''doi''" by blast
  from T have d:
    "fst (scan_deposits ''10.5281/zenodo.1'' [JObj [(''doi'', JStr ''10.5281/zenodo.2'')]] initial)
       = Inl (Raised (KeyError ''conceptdoi''))" by blast
  from a b c d show ?thesis by blast
qed

section \<open>An unknown DOI\<close>

lemma scan_keeps:
  "trace (snd (scan_deposits doi ds s)) = trace s \<and> self (snd (scan_deposits doi ds s)) = self s
   \<and> appended (snd (scan_deposits doi ds s)) = appended s"
proof (induction ds arbitrary: s)
  case Nil
  then show ?case by (simp add: ret_def)
next
  case (Cons d ds)
  show ?case
  proof (cases "py_in ''doi'' d")
    case (Inl e)
    then show ?thesis by (simp add: throw_def)
  next
    case (Inr b)
    note b = this
    show ?thesis
    proof (cases b)
      case False
      with Cons b show ?thesis by simp
    next
      case True
      show ?thesis
      proof (cases "getitem d ''doi''")
        case (Inl e)
        with b True show ?thesis by (simp add: throw_def)
      next
        case (Inr v)
        note v = this
        show ?thesis
        proof (cases "getitem d ''conceptdoi''")
          case (Inl e)
          with b True v show ?thesis by (simp add: throw_def)
        next
          case (Inr c)
          with Cons b True v show ?thesis
            by (simp add: ret_def)
        qed
      qed
    qed
  qed
qed

lemma get_depositions_ok:
  assumes "requests_send w (trace s) (list_request (self s)) = Inr r"
    and "status_code r \<in> {200, 201}" and "body r = Some j"
  shows "get_depositions w s = (Inr j, s\<lparr>trace := trace s @ [list_request (self s)]\<rparr>)"
  using assms
  by (simp add: get_depositions_def get_def list_request_def run_defs)

lemma find_deposit_ok:
  assumes "requests_send w (trace s) (list_request (self s)) = Inr r"
    and "status_code r \<in> {200, 201}" and "body r = Some (JArr ds)"
  shows "find_deposit w doi s = scan_deposits doi ds (s\<lparr>trace := trace s @ [list_request (self s)]\<rparr>)"
  using get_depositions_ok [OF assms]
  by (simp add: find_deposit_def bind_def)

lemma find_none: "(\<forall>d\<in>set ds. \<not> P d) \<Longrightarrow> find P ds = None"
  by (induction ds) auto

lemma update_doi_not_found:
  assumes "requests_send w (trace s) (list_request (self s)) = Inr r"
    and "status_code r \<in> {200, 201}" and "body r = Some (JArr ds)"
    and wf: "\<forall>d\<in>set ds. is_dict d \<and> (has_key d ''doi'' \<longrightarrow> has_key d ''conceptdoi'')"
    and nm: "\<forall>d\<in>set ds. \<not> matches doi d"
  shows "fst (update_doi w doi s) = Inl (Exit (Fmt ''Cannot find deposit with doi: '%s'. Are you currently editing it?'' [AStr doi]))"
    and "trace (snd (update_doi w doi s)) = trace s @ [list_request (self s)]"
proof -
  let ?s1 = "s\<lparr>trace := trace s @ [list_request (self s)]\<rparr>"
  obtain s2 where sc: "scan_deposits doi ds ?s1 = (Inr None, s2)"
    using scan_total [OF wf, of doi ?s1] find_none [OF nm]
    by (metis prod.collapse)
  have t: "trace s2 = trace s @ [list_request (self s)]"
    using scan_keeps [of doi ds ?s1] sc by simp
  have fd: "find_deposit w doi s = (Inr None, s2)"
    using find_deposit_ok [OF assms(1-3)] sc by simp
  show "fst (update_doi w doi s) = Inl (Exit (Fmt ''Cannot find deposit with doi: '%s'. Are you currently editing it?'' [AStr doi]))"
    by (simp add: update_doi_def bind_def fd sys_exit_def throw_def)
  show "trace (snd (update_doi w doi s)) = trace s @ [list_request (self s)]"
    by (simp add: update_doi_def bind_def fd sys_exit_def throw_def t)
qed

lemma scan_result_matches:
  "fst (scan_deposits doi ds s) = Inr (Some m) \<Longrightarrow> matches doi m"
proof (induction ds arbitrary: s)
  case Nil
  then show ?case by (simp add: ret_def)
next
  case (Cons d ds)
  show ?case
  proof (cases "py_in ''doi'' d")
    case (Inl e)
    with Cons.prems show ?thesis by (simp add: throw_def)
  next
    case (Inr b)
    note b = this
    show ?thesis
    proof (cases b)
      case False
      with Cons b show ?thesis by simp
    next
      case True
      show ?thesis
      proof (cases "getitem d ''doi''")
        case (Inl e)
        with Cons.prems b True show ?thesis by (simp add: throw_def)
      next
        case (Inr v)
        note v = this
        then have hk: "has_key d ''doi''" by (rule getitem_Inr_has_key)
        show ?thesis
        proof (cases "getitem d ''conceptdoi''")
          case (Inl e)
          with Cons.prems b True v show ?thesis by (simp add: throw_def)
        next
          case (Inr c)
          note c = this
          show ?thesis
          proof (cases "c = JStr doi")
            case True
            with Cons.prems b \<open>b\<close> v c have "m = d" by (simp add: ret_def)
            with hk c True show ?thesis by (simp add: matches_def)
          next
            case False
            with Cons b \<open>b\<close> v c show ?thesis by simp
          qed
        qed
      qed
    qed
  qed
qed

lemma update_doi_no_match:
  assumes "requests_send w (trace s) (list_request (self s)) = Inr r"
    and "status_code r \<in> {200, 201}" and "body r = Some (JArr ds)"
    and nm: "\<forall>d\<in>set ds. \<not> matches doi d"
  shows "\<exists>e. fst (update_doi w doi s) = Inl e"
    and "trace (snd (update_doi w doi s)) = trace s @ [list_request (self s)]"
proof -
  let ?s1 = "s\<lparr>trace := trace s @ [list_request (self s)]\<rparr>"
  obtain r2 s2 where sc: "scan_deposits doi ds ?s1 = (r2, s2)"
    by (cases "scan_deposits doi ds ?s1")
  have t: "trace s2 = trace s @ [list_request (self s)]"
    using scan_keeps [of doi ds ?s1] sc by simp
  have fd: "find_deposit w doi s = (r2, s2)"
    using find_deposit_ok [OF assms(1-3)] sc by simp
  have nosome: "r2 \<noteq> Inr (Some m)" for m
  proof
    assume "r2 = Inr (Some m)"
    with sc have f: "fst (scan_deposits doi ds ?s1) = Inr (Some m)" by simp
    from scan_result_matches [OF f] scan_result_has_doi [OF f] nm show False by blast
  qed
  show "\<exists>e. fst (update_doi w doi s) = Inl e"
  proof (cases r2)
    case (Inl e)
    with fd show ?thesis by (simp add: update_doi_def bind_def)
  next
    case (Inr x)
    with nosome have "x = None" by (cases x) auto
    with Inr fd show ?thesis by (simp add: update_doi_def bind_def sys_exit_def throw_def)
  qed
  show "trace (snd (update_doi w doi s)) = trace s @ [list_request (self s)]"
  proof (cases r2)
    case (Inl e)
    with fd t show ?thesis by (simp add: update_doi_def bind_def)
  next
    case (Inr x)
    with nosome have "x = None" by (cases x) auto
    with Inr fd t show ?thesis by (simp add: update_doi_def bind_def sys_exit_def throw_def)
  qed
qed

text \<open>
  C7. When the concept DOI given matches no deposition of the listing, the upload ends
  with a failure and the listing request is the only request of the run: no file is
  uploaded and nothing is published. The failure is \<open>Cannot find deposit\<close> when each
  listed deposition is a dict that has a \<open>conceptdoi\<close> whenever it has a \<open>doi\<close>. (The
  archive exists and the listing is answered 200 or 201 with a list.)
\<close>

theorem unknown_doi_fails_before_upload:
  assumes "path_exists w (abspath w archive)" and "doi \<noteq> []"
    and "requests_send w (trace s) (list_request (self (snd (Zenodo token sandbox s)))) = Inr r"
    and "status_code r \<in> {200, 201}" and "body r = Some (JArr ds)"
    and "\<forall>d\<in>set ds. \<not> matches doi d"
  shows "(\<exists>e. fst (upload_archive w token archive version html_url zenodo_json (Some doi) sandbox
                   title description description_file s) = Inl e) \<and>
         trace (snd (upload_archive w token archive version html_url zenodo_json (Some doi) sandbox
               title description description_file s))
           = trace s @ [list_request (self (snd (Zenodo token sandbox s)))] \<and>
         ((\<forall>d\<in>set ds. is_dict d \<and> (has_key d ''doi'' \<longrightarrow> has_key d ''conceptdoi'')) \<longrightarrow>
            fst (upload_archive w token archive version html_url zenodo_json (Some doi) sandbox
                   title description description_file s)
              = Inl (Exit (Fmt ''Cannot find deposit with doi: '%s'. Are you currently editing it?''
                             [AStr doi])))"
proof -
  obtain s0 where z: "Zenodo token sandbox s = (Inr (), s0)" and tz: "trace s0 = trace s"
    by (simp add: Zenodo_def set_host_def)
  have rs: "requests_send w (trace s0) (list_request (self s0)) = Inr r"
    using assms(3) tz z by simp
  obtain e s' where u: "update_doi w doi s0 = (e, s')" by (cases "update_doi w doi s0")
  have run: "upload_archive w token archive version html_url zenodo_json (Some doi) sandbox
               title description description_file s
             = bind (update_doi w doi) (\<lambda>upload.
                 bind (for_each (\<lambda>path. Zenodo_upload_archive w upload path)
                         (glob w (abspath w archive))) (\<lambda>_.
                 bind (upload_metadata w upload zenodo_json version html_url title description
                         description_file) (\<lambda>data. publish w data))) s0"
    using assms(1,2) by (simp add: upload_archive_def Let_def bind_def [of "Zenodo token sandbox"] z)
  from update_doi_no_match [OF rs assms(4,5,6)] u obtain x where
    e: "e = Inl x" and s': "trace s' = trace s @ [list_request (self s0)]"
    using tz by auto
  have res: "upload_archive w token archive version html_url zenodo_json (Some doi) sandbox
               title description description_file s = (Inl x, s')"
    unfolding run by (simp add: bind_def u e)
  have a: "\<exists>e. fst (upload_archive w token archive version html_url zenodo_json (Some doi) sandbox
                   title description description_file s) = Inl e"
    by (simp add: res)
  have b: "trace (snd (upload_archive w token archive version html_url zenodo_json (Some doi) sandbox
               title description description_file s))
           = trace s @ [list_request (self (snd (Zenodo token sandbox s)))]"
    by (simp add: res s' z)
  have c: "fst (upload_archive w token archive version html_url zenodo_json (Some doi) sandbox
                   title description description_file s)
              = Inl (Exit (Fmt ''Cannot find deposit with doi: '%s'. Are you currently editing it?''
                             [AStr doi]))"
    if wf: "\<forall>d\<in>set ds. is_dict d \<and> (has_key d ''doi'' \<longrightarrow> has_key d ''conceptdoi'')"
    using update_doi_not_found(1) [OF rs assms(4,5) wf assms(6)] u e by (simp add: res)
  from a b c show ?thesis by blast
qed

theorem unknown_doi_fails_before_upload_witness:
  "fst (upload_archive sample ''secret'' ''a.zip'' ''1.0'' None None (Some ''10.5281/zenodo.404'')
          False None None None initial)
     = Inl (Exit (Fmt ''Cannot find deposit with doi: '%s'. Are you currently editing it?''
                    [AStr ''10.5281/zenodo.404''])) \<and>
   trace (snd (upload_archive sample ''secret'' ''a.zip'' ''1.0'' None None
                 (Some ''10.5281/zenodo.404'') False None None None initial))
     = [\<lparr>meth = GET, req_url = ''https://zenodo.org/api/deposit/depositions'',
         params = [(''access_token'', ''secret'')],
         headers = [(''Accept'', ''application/json'')], payload = NoBody\<rparr>]"
proof -
  let ?r = "\<lparr>status_code = 200, body = Some (JArr [deposit9, deposit8, deposit2])\<rparr>"
  have h1: "path_exists sample (abspath sample ''a.zip'')"
    by (simp add: sample_def startswith_def)
  have h2: "''10.5281/zenodo.404'' \<noteq> []"
    by simp
  have h3: "requests_send sample (trace initial)
              (list_request (self (snd (Zenodo ''secret'' False initial)))) = Inr ?r"
    unfolding Zenodo_initial
    by (simp add: list_request_def request_of_def sample_def routes_def api_def ok_def)
  have h4: "status_code ?r \<in> {200, 201}"
    and h5: "body ?r = Some (JArr [deposit9, deposit8, deposit2])"
    by simp_all
  have h6: "\<forall>d\<in>set [deposit9, deposit8, deposit2].
              is_dict d \<and> (has_key d ''doi'' \<longrightarrow> has_key d ''conceptdoi'')"
    by (simp add: deposit9_def deposit8_def deposit2_def)
  have h7: "\<forall>d\<in>set [deposit9, deposit8, deposit2]. \<not> matches ''10.5281/zenodo.404'' d"
    by (simp add: matches_def deposit9_def deposit8_def deposit2_def)
  have l: "trace initial @ [list_request (self (snd (Zenodo ''secret'' False initial)))]
             = [\<lparr>meth = GET, req_url = ''https://zenodo.org/api/deposit/depositions'',
                 params = [(''access_token'', ''secret'')],
                 headers = [(''Accept'', ''application/json'')], payload = NoBody\<rparr>]"
    unfolding Zenodo_initial by (simp add: list_request_def request_of_def initial_def)
  note T = unknown_doi_fails_before_upload [OF h1 h2 h3 h4 h5 h7,
        where version = "''1.0''" and html_url = None and zenodo_json = None and title = None
          and description = None and description_file = None]
  from T h6 have a: "fst (upload_archive sample ''secret'' ''a.zip'' ''1.0'' None None
          (Some ''10.5281/zenodo.404'') False None None None initial)
     = Inl (Exit (Fmt ''Cannot find deposit with doi: '%s'. Are you currently editing it?''
                    [AStr ''10.5281/zenodo.404'']))"
    by blast
  from T have b: "trace (snd (upload_archive sample ''secret'' ''a.zip'' ''1.0'' None None
                 (Some ''10.5281/zenodo.404'') False None None None initial))
     = trace initial @ [list_request (self (snd (Zenodo ''secret'' False initial)))]"
    by blast
  from a b show ?thesis unfolding l by simp
qed

text \<open>
  Without a \<open>conceptdoi\<close> in a listed deposition the failure is another one: here
  nothing matches the DOI given, and the run ends on line 114 with a \<^verbatim>\<open>KeyError\<close>.
\<close>

theorem unknown_doi_key_error:
  "\<not> matches ''10.5281/zenodo.404'' (JObj [(''doi'', JStr ''10.5281/zenodo.2'')]) \<and>
   requests_send bare_listing [] (list_request (self (snd (Zenodo ''secret'' False initial))))
     = Inr \<lparr>status_code = 200, body = Some (JArr [JObj [(''doi'', JStr ''10.5281/zenodo.2'')]])\<rparr> \<and>
   fst (upload_archive bare_listing ''secret'' ''a.zip'' ''1.0'' None None
          (Some ''10.5281/zenodo.404'') False None None None initial)
     = Inl (Raised (KeyError ''conceptdoi''))"
proof -
  have a: "\<not> matches ''10.5281/zenodo.404'' (JObj [(''doi'', JStr ''10.5281/zenodo.2'')])"
    by (simp add: matches_def)
  have b: "requests_send bare_listing [] (list_request (self (snd (Zenodo ''secret'' False initial))))
     = Inr \<lparr>status_code = 200, body = Some (JArr [JObj [(''doi'', JStr ''10.5281/zenodo.2'')]])\<rparr>"
    by (simp add: bare_listing_def ok_def)
  have z: "Zenodo ''secret'' False initial
             = (Inr (), \<lparr>self = \<lparr>host = ''zenodo.org'',
                                  self_headers = [(''Accept'', ''application/json'')],
                                  self_params = [(''access_token'', ''secret'')]\<rparr>,
                        trace = [], stdout = [], appended = []\<rparr>)"
    by (simp add: Zenodo_def set_host_def initial_def)
  have c: "fst (upload_archive bare_listing ''secret'' ''a.zip'' ''1.0'' None None
          (Some ''10.5281/zenodo.404'') False None None None initial)
     = Inl (Raised (KeyError ''conceptdoi''))"
    by (simp add: upload_archive_def Let_def bind_def [of "Zenodo _ _"] z update_doi_def
          find_deposit_def get_depositions_def get_def run_defs bare_listing_def sample_def)
  from a b c show ?thesis by blast
qed

section \<open>The draft of a known DOI\<close>

lemma send_eq:
  "send w m u h p s =
     (case requests_send w (trace s) (request_of (self s) m u h p) of
        Inl e \<Rightarrow> (Inl (Raised e), s\<lparr>trace := trace s @ [request_of (self s) m u h p]\<rparr>)
      | Inr r \<Rightarrow> (Inr r, s\<lparr>trace := trace s @ [request_of (self s) m u h p]\<rparr>))"
  by (simp add: send_def http_def)

lemma only_deletes_refl [simp]: "only_deletes s s"
  by (simp add: only_deletes_def)

lemma only_deletes_stdout [simp]: "only_deletes s (s\<lparr>stdout := x\<rparr>)"
  by (simp add: only_deletes_def)

lemma only_deletes_trans: "only_deletes s s' \<Longrightarrow> only_deletes s' s'' \<Longrightarrow> only_deletes s s''"
  by (auto simp: only_deletes_def)

lemma delete_file_only_deletes: "only_deletes s (snd (delete_file w f s))"
proof (cases "getitem f ''links''")
  case (Inl e)
  then show ?thesis by (simp add: delete_file_def throw_def)
next
  case (Inr l)
  note l = this
  show ?thesis
  proof (cases "getitem l ''self''")
    case (Inl e)
    with l show ?thesis by (simp add: delete_file_def throw_def)
  next
    case (Inr u)
    with l show ?thesis
      by (auto simp: delete_file_def bind_def send_eq only_deletes_def request_of_def
            lift_def print_def ret_def
          split: sum.splits prod.splits)
  qed
qed

lemma for_each_only_deletes: "only_deletes s (snd (for_each (delete_file w) fs s))"
proof (induction fs arbitrary: s)
  case Nil
  then show ?case by (simp add: ret_def)
next
  case (Cons f fs)
  show ?case
  proof (cases "delete_file w f s")
    case (Pair r s1)
    with delete_file_only_deletes [of s w f] have d: "only_deletes s s1" by simp
    show ?thesis
    proof (cases r)
      case (Inl e)
      with Pair d show ?thesis by (simp add: bind_def)
    next
      case (Inr x)
      with Pair d Cons.IH [of s1] show ?thesis
        by (auto simp: bind_def intro: only_deletes_trans)
    qed
  qed
qed

lemma remove_files_only_deletes: "only_deletes s (snd (remove_files w nv s))"
proof (cases "py_get nv ''files'' (JArr [])")
  case (Inl e)
  then show ?thesis by (simp add: remove_files_def throw_def)
next
  case (Inr files)
  note f = this
  show ?thesis
  proof (cases "py_iter files")
    case (Inl e)
    with f show ?thesis by (simp add: remove_files_def throw_def)
  next
    case (Inr fs)
    with f show ?thesis by (simp add: remove_files_def for_each_only_deletes)
  qed
qed

lemma since_append: "trace s' = trace s @ rest \<Longrightarrow> since s s' = rest"
  by (simp add: since_def)

lemma only_deletes_since:
  "only_deletes s s' \<Longrightarrow> trace s' = trace s @ since s s' \<and> list_all (\<lambda>r. meth r = DELETE) (since s s')"
  by (auto simp: only_deletes_def since_def)

lemma has_key_truthy: "has_key t k \<Longrightarrow> truthy t"
  by (cases t) auto

lemma find_deposit_found:
  assumes "find_deposit w doi s = (Inr (Some t), s1)"
  shows "has_key t ''doi''"
proof -
  obtain r0 s0 where g: "get_depositions w s = (r0, s0)" by (cases "get_depositions w s")
  show ?thesis
  proof (cases r0)
    case (Inl e)
    with assms g show ?thesis by (simp add: find_deposit_def bind_def)
  next
    case (Inr deposits)
    note r0 = this
    show ?thesis
    proof (cases "py_iter deposits")
      case (Inl e)
      with assms g r0 show ?thesis by (simp add: find_deposit_def bind_def throw_def)
    next
      case (Inr ds)
      with assms g r0 have "scan_deposits doi ds s0 = (Inr (Some t), s1)"
        by (simp add: find_deposit_def bind_def)
      then have "fst (scan_deposits doi ds s0) = Inr (Some t)" by simp
      then show ?thesis using scan_result_has_doi by blast
    qed
  qed
qed

lemma update_doi_found:
  assumes "find_deposit w doi s = (Inr (Some t), s1)"
  shows "update_doi w doi s = bind (choose_draft w doi t) (finish w doi) s1"
proof -
  have "truthy t" using find_deposit_found [OF assms] has_key_truthy by blast
  with assms show ?thesis
    by (simp add: update_doi_def finish_def [abs_def] bind_def [of "find_deposit w doi"])
qed

lemma get_str:
  "get w (JStr u) s =
     (case requests_send w (trace s) (request_of (self s) GET (with_host u s) True NoBody) of
        Inl e \<Rightarrow> (Inl (Raised e), s\<lparr>trace := trace s @ [request_of (self s) GET (with_host u s) True NoBody]\<rparr>)
      | Inr r \<Rightarrow> (Inr r, s\<lparr>trace := trace s @ [request_of (self s) GET (with_host u s) True NoBody]\<rparr>))"
  by (simp add: get_def send_eq)

lemma post_str:
  "post w (JStr u) s =
     (case requests_send w (trace s) (request_of (self s) POST (with_host u s) True NoBody) of
        Inl e \<Rightarrow> (Inl (Raised e), s\<lparr>trace := trace s @ [request_of (self s) POST (with_host u s) True NoBody]\<rparr>)
      | Inr r \<Rightarrow> (Inr r, s\<lparr>trace := trace s @ [request_of (self s) POST (with_host u s) True NoBody]\<rparr>))"
  by (simp add: post_def send_eq)

lemma check_state [simp]:
  "snd ((if c then bind (lift (json_of r)) (\<lambda>b. sys_exit (g b)) else lift (json_of r)) s) = s"
  by (simp add: json_of_def sys_exit_def throw_def lift_def split: option.splits)

lemma fetch_draft_shape:
  "self (snd (fetch_draft w doi draft s)) = self s \<and>
   (\<exists>pre. trace (snd (fetch_draft w doi draft s)) = trace s @ pre \<and> list_all (\<lambda>r. meth r = GET) pre)"
proof (cases "getitem draft ''links''")
  case (Inl e)
  then show ?thesis by (simp add: fetch_draft_def throw_def)
next
  case (Inr l)
  note l = this
  show ?thesis
  proof (cases "getitem l ''latest_draft''")
    case (Inl e)
    with l show ?thesis by (simp add: fetch_draft_def throw_def)
  next
    case (Inr u)
    with l show ?thesis
      by (cases u)
         (auto simp: fetch_draft_def get_def send_eq bind_def request_of_def split: sum.splits)
  qed
qed

lemma fetch_draft_first:
  assumes "getitem draft ''links'' = Inr l" and "getitem l ''latest_draft'' = Inr (JStr u)"
  shows "trace (snd (fetch_draft w doi draft s))
           = trace s @ [request_of (self s) GET (with_host u s) True NoBody]"
  using assms
  by (auto simp: fetch_draft_def get_str bind_def split: sum.splits)

lemma finish_shape:
  "\<exists>pre rest. trace (snd (finish w doi draft s)) = trace s @ pre @ rest \<and>
     trace (snd (fetch_draft w doi draft s)) = trace s @ pre \<and>
     list_all (\<lambda>r. meth r = GET) pre \<and> list_all (\<lambda>r. meth r = DELETE) rest"
proof -
  obtain r1 s1 where f: "fetch_draft w doi draft s = (r1, s1)" by (cases "fetch_draft w doi draft s")
  from fetch_draft_shape [of w doi draft s] f obtain pre where
    pre: "trace s1 = trace s @ pre" "list_all (\<lambda>r. meth r = GET) pre" by auto
  show ?thesis
  proof (cases r1)
    case (Inl e)
    with f pre show ?thesis by (auto simp: finish_def bind_def)
  next
    case (Inr nv)
    obtain r2 s2 where rm: "remove_files w nv s1 = (r2, s2)" by (cases "remove_files w nv s1")
    from remove_files_only_deletes [of s1 w nv] rm obtain rest where
      rest: "trace s2 = trace s1 @ rest" "list_all (\<lambda>r. meth r = DELETE) rest"
      by (auto simp: only_deletes_def)
    have "trace (snd (finish w doi draft s)) = trace s2"
      using f Inr rm by (cases r2) (simp_all add: finish_def bind_def ret_def)
    with pre rest f show ?thesis by auto
  qed
qed

lemma choose_draft_unsubmitted:
  "getitem t ''submitted'' = Inr sub \<Longrightarrow> \<not> truthy sub \<Longrightarrow> choose_draft w doi t s = (Inr t, s)"
  by (simp add: choose_draft_def ret_def)

lemma choose_draft_submitted:
  assumes "getitem t ''submitted'' = Inr sub" and "truthy sub"
    and "getitem t ''links'' = Inr l" and "getitem l ''newversion'' = Inr (JStr nv)"
  shows "choose_draft w doi t s =
     (case requests_send w (trace s) (request_of (self s) POST (with_host nv s) True NoBody) of
        Inl e \<Rightarrow> (Inl (Raised e), s\<lparr>trace := trace s @ [request_of (self s) POST (with_host nv s) True NoBody]\<rparr>)
      | Inr r \<Rightarrow>
          (if status_code r \<notin> {200, 201} then
             (case body r of
                None \<Rightarrow> Inl (Raised JSONDecodeError)
              | Some b \<Rightarrow> Inl (Exit (Fmt ''Cannot create a new version for doi '%s'. %s'' [AStr doi, AJson b])))
           else (case body r of None \<Rightarrow> Inl (Raised JSONDecodeError) | Some b \<Rightarrow> Inr b),
           s\<lparr>trace := trace s @ [request_of (self s) POST (with_host nv s) True NoBody]\<rparr>))"
  using assms
  by (simp add: choose_draft_def bind_def post_str json_of_def lift_def sys_exit_def throw_def
        split: sum.splits option.splits)

lemma fetch_draft_ok:
  assumes "getitem draft ''links'' = Inr l" and "getitem l ''latest_draft'' = Inr (JStr u)"
    and "requests_send w (trace s) (request_of (self s) GET (with_host u s) True NoBody) = Inr r"
    and "status_code r \<in> {200, 201}" and "body r = Some new_version"
  shows "fetch_draft w doi draft s
           = (Inr new_version,
              s\<lparr>trace := trace s @ [request_of (self s) GET (with_host u s) True NoBody]\<rparr>)"
proof -
  have c: "\<not> status_code r \<notin> {200, 201}" using assms(4) by simp
  show ?thesis
    unfolding fetch_draft_def
    by (simp only: assms(1,2) bind_lift_Inr)
       (simp add: bind_def get_str assms(3) c assms(5) json_of_def lift_def del: insert_iff)
qed

lemma with_host_trace [simp]: "with_host u (s\<lparr>trace := t\<rparr>) = with_host u s"
  by (simp add: with_host_def)

lemma finish_ok:
  assumes "getitem draft ''links'' = Inr l" and "getitem l ''latest_draft'' = Inr (JStr u)"
    and "requests_send w (trace s) (request_of (self s) GET (with_host u s) True NoBody) = Inr r"
    and "status_code r \<in> {200, 201}" and "body r = Some new_version"
  shows "fst (finish w doi draft s)
           = (case fst (remove_files w new_version
                          (s\<lparr>trace := trace s @ [request_of (self s) GET (with_host u s) True NoBody]\<rparr>)) of
                Inl e \<Rightarrow> Inl e
              | Inr x \<Rightarrow> Inr new_version)"
proof -
  let ?s2 = "s\<lparr>trace := trace s @ [request_of (self s) GET (with_host u s) True NoBody]\<rparr>"
  obtain r2 s3 where rm: "remove_files w new_version ?s2 = (r2, s3)"
    by (cases "remove_files w new_version ?s2")
  show ?thesis
    using fetch_draft_ok [OF assms, of doi] rm
    by (cases r2) (simp_all add: finish_def bind_def ret_def)
qed

text \<open>
  C5. \<^verbatim>\<open>update_doi\<close> branches on the \<open>submitted\<close> flag of the deposit found. When the
  flag is false no \<^verbatim>\<open>POST\<close> follows the lookup: the next request is the \<^verbatim>\<open>GET\<close> of the
  deposit's own \<open>latest_draft\<close> link. When the flag is true the next request is the
  \<^verbatim>\<open>POST\<close> of the deposit's \<open>newversion\<close> link, and once that is answered 200 or 201
  the request after it is the \<^verbatim>\<open>GET\<close> of the \<open>latest_draft\<close> link of the answer. In both
  branches, when that \<^verbatim>\<open>GET\<close> is answered 200 or 201, what \<^verbatim>\<open>update_doi\<close> returns is the
  body of the answer, unless the removal of its files fails.
\<close>

theorem resolve_draft_fetches:
  assumes "find_deposit w doi s = (Inr (Some target), s1)"
    and "getitem target ''submitted'' = Inr submitted"
  shows
    "(\<not> truthy submitted \<longrightarrow>
        list_all (\<lambda>r. meth r \<noteq> POST) (since s1 (snd (update_doi w doi s)))) \<and>
     (\<not> truthy submitted \<and> getitem target ''links'' = Inr links \<and>
      getitem links ''latest_draft'' = Inr (JStr u) \<longrightarrow>
        take 1 (since s1 (snd (update_doi w doi s)))
          = [request_of (self s1) GET (with_host u s1) True NoBody]) \<and>
     (\<not> truthy submitted \<and> getitem target ''links'' = Inr links \<and>
      getitem links ''latest_draft'' = Inr (JStr u) \<and>
      requests_send w (trace s1) (request_of (self s1) GET (with_host u s1) True NoBody) = Inr a \<and>
      status_code a \<in> {200, 201} \<and> body a = Some new_version \<longrightarrow>
        fst (update_doi w doi s)
          = (case fst (remove_files w new_version
                         (s1\<lparr>trace := trace s1 @
                              [request_of (self s1) GET (with_host u s1) True NoBody]\<rparr>)) of
               Inl e \<Rightarrow> Inl e
             | Inr x \<Rightarrow> Inr new_version)) \<and>
     (truthy submitted \<and> getitem target ''links'' = Inr links \<and>
      getitem links ''newversion'' = Inr (JStr nv) \<longrightarrow>
        take 1 (since s1 (snd (update_doi w doi s)))
          = [request_of (self s1) POST (with_host nv s1) True NoBody]) \<and>
     (truthy submitted \<and> getitem target ''links'' = Inr links \<and>
      getitem links ''newversion'' = Inr (JStr nv) \<and>
      requests_send w (trace s1) (request_of (self s1) POST (with_host nv s1) True NoBody) = Inr r \<and>
      status_code r \<in> {200, 201} \<and> body r = Some draft \<and>
      getitem draft ''links'' = Inr dlinks \<and> getitem dlinks ''latest_draft'' = Inr (JStr v) \<longrightarrow>
        take 2 (since s1 (snd (update_doi w doi s)))
          = [request_of (self s1) POST (with_host nv s1) True NoBody,
             request_of (self s1) GET (with_host v s1) True NoBody]) \<and>
     (truthy submitted \<and> getitem target ''links'' = Inr links \<and>
      getitem links ''newversion'' = Inr (JStr nv) \<and>
      requests_send w (trace s1) (request_of (self s1) POST (with_host nv s1) True NoBody) = Inr r \<and>
      status_code r \<in> {200, 201} \<and> body r = Some draft \<and>
      getitem draft ''links'' = Inr dlinks \<and> getitem dlinks ''latest_draft'' = Inr (JStr v) \<and>
      requests_send w (trace s1 @ [request_of (self s1) POST (with_host nv s1) True NoBody])
        (request_of (self s1) GET (with_host v s1) True NoBody) = Inr b \<and>
      status_code b \<in> {200, 201} \<and> body b = Some fetched \<longrightarrow>
        fst (update_doi w doi s)
          = (case fst (remove_files w fetched
                         (s1\<lparr>trace := trace s1 @
                              [request_of (self s1) POST (with_host nv s1) True NoBody,
                               request_of (self s1) GET (with_host v s1) True NoBody]\<rparr>)) of
               Inl e \<Rightarrow> Inl e
             | Inr x \<Rightarrow> Inr fetched))"
proof -
  note U = update_doi_found [OF assms(1)]
  have un: "update_doi w doi s = finish w doi target s1" if ns: "\<not> truthy submitted"
  proof -
    have c: "choose_draft w doi target s1 = (Inr target, s1)"
      using assms(2) ns by (rule choose_draft_unsubmitted)
    show ?thesis using U c by (simp add: bind_def)
  qed
  have A: "list_all (\<lambda>r. meth r \<noteq> POST) (since s1 (snd (update_doi w doi s)))"
    if ns: "\<not> truthy submitted"
  proof -
    from finish_shape [of w doi target s1] obtain pre rest where
      "trace (snd (finish w doi target s1)) = trace s1 @ pre @ rest"
      "list_all (\<lambda>r. meth r = GET) pre" "list_all (\<lambda>r. meth r = DELETE) rest" by blast
    then show ?thesis
      by (auto simp: un [OF ns] since_def list_all_iff)
  qed
  have B: "take 1 (since s1 (snd (update_doi w doi s)))
             = [request_of (self s1) GET (with_host u s1) True NoBody]"
    if ns: "\<not> truthy submitted" and l: "getitem target ''links'' = Inr links"
      and d: "getitem links ''latest_draft'' = Inr (JStr u)"
  proof -
    from finish_shape [of w doi target s1] fetch_draft_first [OF l d, of w doi s1]
    obtain rest where
      "trace (snd (finish w doi target s1))
         = trace s1 @ [request_of (self s1) GET (with_host u s1) True NoBody] @ rest"
      by auto
    then show ?thesis by (simp add: un [OF ns] since_def)
  qed
  have B': "fst (update_doi w doi s)
          = (case fst (remove_files w new_version
                         (s1\<lparr>trace := trace s1 @
                              [request_of (self s1) GET (with_host u s1) True NoBody]\<rparr>)) of
               Inl e \<Rightarrow> Inl e
             | Inr x \<Rightarrow> Inr new_version)"
    if ns: "\<not> truthy submitted" and l: "getitem target ''links'' = Inr links"
      and d: "getitem links ''latest_draft'' = Inr (JStr u)"
      and rs: "requests_send w (trace s1) (request_of (self s1) GET (with_host u s1) True NoBody) = Inr a"
      and st: "status_code a \<in> {200, 201}" and bd: "body a = Some new_version"
    using finish_ok [OF l d rs st bd, of doi] by (simp add: un [OF ns])
  have C: "take 1 (since s1 (snd (update_doi w doi s)))
             = [request_of (self s1) POST (with_host nv s1) True NoBody]"
    if ts: "truthy submitted" and l: "getitem target ''links'' = Inr links"
      and n: "getitem links ''newversion'' = Inr (JStr nv)"
  proof -
    let ?p = "request_of (self s1) POST (with_host nv s1) True NoBody"
    let ?s2 = "s1\<lparr>trace := trace s1 @ [?p]\<rparr>"
    note cd = choose_draft_submitted [OF assms(2) ts l n, of w doi s1]
    obtain r2 where c: "choose_draft w doi target s1 = (r2, ?s2)"
      using cd by (auto split: sum.splits)
    have "\<exists>more. trace (snd (update_doi w doi s)) = trace s1 @ ?p # more"
    proof (cases r2)
      case (Inl e)
      with U c show ?thesis by (simp add: bind_def)
    next
      case (Inr dr)
      from finish_shape [of w doi dr ?s2] obtain pre rest where
        "trace (snd (finish w doi dr ?s2)) = trace ?s2 @ pre @ rest" by blast
      with U c Inr show ?thesis by (simp add: bind_def)
    qed
    then show ?thesis by (auto simp: since_def)
  qed
  have sb: "update_doi w doi s
              = finish w doi draft (s1\<lparr>trace := trace s1 @
                   [request_of (self s1) POST (with_host nv s1) True NoBody]\<rparr>)"
    if ts: "truthy submitted" and l: "getitem target ''links'' = Inr links"
      and n: "getitem links ''newversion'' = Inr (JStr nv)"
      and rs: "requests_send w (trace s1) (request_of (self s1) POST (with_host nv s1) True NoBody) = Inr r"
      and st: "status_code r \<in> {200, 201}" and b: "body r = Some draft"
  proof -
    have "choose_draft w doi target s1
            = (Inr draft, s1\<lparr>trace := trace s1 @
                   [request_of (self s1) POST (with_host nv s1) True NoBody]\<rparr>)"
      using choose_draft_submitted [OF assms(2) ts l n, of w doi s1] rs st b by auto
    with U show ?thesis by (simp add: bind_def)
  qed
  have D: "take 2 (since s1 (snd (update_doi w doi s)))
              = [request_of (self s1) POST (with_host nv s1) True NoBody,
                 request_of (self s1) GET (with_host v s1) True NoBody]"
    if ts: "truthy submitted" and l: "getitem target ''links'' = Inr links"
      and n: "getitem links ''newversion'' = Inr (JStr nv)"
      and rs: "requests_send w (trace s1) (request_of (self s1) POST (with_host nv s1) True NoBody) = Inr r"
      and st: "status_code r \<in> {200, 201}" and b: "body r = Some draft"
      and dl: "getitem draft ''links'' = Inr dlinks"
      and ld: "getitem dlinks ''latest_draft'' = Inr (JStr v)"
  proof -
    let ?p = "request_of (self s1) POST (with_host nv s1) True NoBody"
    let ?s2 = "s1\<lparr>trace := trace s1 @ [?p]\<rparr>"
    from finish_shape [of w doi draft ?s2] fetch_draft_first [OF dl ld, of w doi ?s2]
    obtain rest where
      "trace (snd (finish w doi draft ?s2))
         = trace ?s2 @ [request_of (self ?s2) GET (with_host v ?s2) True NoBody] @ rest"
      by auto
    then show ?thesis
      by (simp add: sb [OF ts l n rs st b] since_def)
  qed
  have D': "fst (update_doi w doi s)
          = (case fst (remove_files w fetched
                         (s1\<lparr>trace := trace s1 @
                              [request_of (self s1) POST (with_host nv s1) True NoBody,
                               request_of (self s1) GET (with_host v s1) True NoBody]\<rparr>)) of
               Inl e \<Rightarrow> Inl e
             | Inr x \<Rightarrow> Inr fetched)"
    if ts: "truthy submitted" and l: "getitem target ''links'' = Inr links"
      and n: "getitem links ''newversion'' = Inr (JStr nv)"
      and rs: "requests_send w (trace s1) (request_of (self s1) POST (with_host nv s1) True NoBody) = Inr r"
      and st: "status_code r \<in> {200, 201}" and b: "body r = Some draft"
      and dl: "getitem draft ''links'' = Inr dlinks"
      and ld: "getitem dlinks ''latest_draft'' = Inr (JStr v)"
      and rs2: "requests_send w (trace s1 @ [request_of (self s1) POST (with_host nv s1) True NoBody])
                  (request_of (self s1) GET (with_host v s1) True NoBody) = Inr b"
      and st2: "status_code b \<in> {200, 201}" and b2: "body b = Some fetched"
  proof -
    let ?p = "request_of (self s1) POST (with_host nv s1) True NoBody"
    let ?s2 = "s1\<lparr>trace := trace s1 @ [?p]\<rparr>"
    have rs2': "requests_send w (trace ?s2) (request_of (self ?s2) GET (with_host v ?s2) True NoBody)
                  = Inr b"
      using rs2 by simp
    from finish_ok [OF dl ld rs2' st2 b2, of doi] show ?thesis
      by (simp add: sb [OF ts l n rs st b])
  qed
  show ?thesis
    apply (intro conjI impI)
         apply (rule A, assumption)
        apply (rule B; (elim conjE)?; assumption)
       apply (elim conjE, rule B'; assumption)
      apply (elim conjE, rule C; assumption)
     apply (elim conjE, rule D; assumption)
    apply (elim conjE, rule D'; assumption)
    done
qed

lemma client_eq:
  "client = \<lparr>self = \<lparr>host = ''zenodo.org'', self_headers = [(''Accept'', ''application/json'')],
                      self_params = [(''access_token'', ''secret'')]\<rparr>,
             trace = [], stdout = [], appended = []\<rparr>"
  by (simp add: client_def Zenodo_initial)

lemmas client_defs =
  get_depositions_def find_deposit_def get_def post_def

lemma sample_find_2: "fst (find_deposit sample ''10.5281/zenodo.1'' client) = Inr (Some deposit2)"
  unfolding client_eq
  by (simp add: find_deposit_def get_depositions_def get_def run_defs sample_defs)

lemma sample_find_8: "fst (find_deposit sample ''10.5281/zenodo.7'' client) = Inr (Some deposit8)"
  unfolding client_eq
  by (simp add: find_deposit_def get_depositions_def get_def run_defs sample_defs)

lemma sample_find_state:
  "self (snd (find_deposit sample doi client)) = self client \<and>
   trace (snd (find_deposit sample doi client))
     = [list_request (self client)]"
  unfolding client_eq
  by (simp add: find_deposit_def get_depositions_def get_def run_defs sample_defs
      list_request_def scan_keeps)

lemma sample_remove_8: "fst (remove_files sample draft8 s) = Inr ()"
  by (simp add: remove_files_def draft8_def ret_def)

lemma sample_remove_3: "fst (remove_files sample draft3 s) = Inr ()"
  by (simp add: remove_files_def delete_file_def draft3_def old_file_def run_defs
        sample_def routes_def api_def)

theorem resolve_draft_fetches_witness:
  "list_all (\<lambda>r. meth r \<noteq> POST)
     (since (snd (find_deposit sample ''10.5281/zenodo.7'' client))
        (snd (update_doi sample ''10.5281/zenodo.7'' client))) \<and>
   map (\<lambda>r. (meth r, req_url r))
     (take 1 (since (snd (find_deposit sample ''10.5281/zenodo.7'' client))
        (snd (update_doi sample ''10.5281/zenodo.7'' client))))
     = [(GET, ''https://zenodo.org/api/deposit/depositions/8'')] \<and>
   fst (update_doi sample ''10.5281/zenodo.7'' client) = Inr draft8 \<and>
   map (\<lambda>r. (meth r, req_url r))
     (take 2 (since (snd (find_deposit sample ''10.5281/zenodo.1'' client))
        (snd (update_doi sample ''10.5281/zenodo.1'' client))))
     = [(POST, ''https://zenodo.org/api/deposit/depositions/2/actions/newversion''),
        (GET, ''https://zenodo.org/api/deposit/depositions/3'')] \<and>
   fst (update_doi sample ''10.5281/zenodo.1'' client) = Inr draft3"
proof -
  let ?s8 = "snd (find_deposit sample ''10.5281/zenodo.7'' client)"
  let ?s2 = "snd (find_deposit sample ''10.5281/zenodo.1'' client)"
  let ?nv = "api @ ''/2/actions/newversion''"
  let ?nd = "JObj [(''links'', JObj [(''latest_draft'', JStr (api @ ''/3''))])]"
  let ?r = "\<lparr>status_code = 201, body = Some ?nd\<rparr>"
  let ?g8 = "\<lparr>status_code = 200, body = Some draft8\<rparr>"
  let ?g3 = "\<lparr>status_code = 200, body = Some draft3\<rparr>"
  have f8: "find_deposit sample ''10.5281/zenodo.7'' client = (Inr (Some deposit8), ?s8)"
    using sample_find_8 by (metis prod.collapse)
  have f2: "find_deposit sample ''10.5281/zenodo.1'' client = (Inr (Some deposit2), ?s2)"
    using sample_find_2 by (metis prod.collapse)
  have sub8: "getitem deposit8 ''submitted'' = Inr (JBool False)"
    and l8: "getitem deposit8 ''links'' = Inr (JObj [(''latest_draft'', JStr (api @ ''/8''))])"
    and ld8: "getitem (JObj [(''latest_draft'', JStr (api @ ''/8''))]) ''latest_draft''
                = Inr (JStr (api @ ''/8''))"
    by (simp_all add: deposit8_def)
  have sub2: "getitem deposit2 ''submitted'' = Inr (JBool True)"
    and l2: "getitem deposit2 ''links'' = Inr (JObj [(''newversion'', JStr ?nv)])"
    and nv2: "getitem (JObj [(''newversion'', JStr ?nv)]) ''newversion'' = Inr (JStr ?nv)"
    by (simp_all add: deposit2_def)
  have st2: "self ?s2 = self client" "trace ?s2 = [list_request (self client)]"
    and st8: "self ?s8 = self client" "trace ?s8 = [list_request (self client)]"
    using sample_find_state by simp_all
  have rs8: "requests_send sample (trace ?s8)
               (request_of (self ?s8) GET (with_host (api @ ''/8'') ?s8) True NoBody) = Inr ?g8"
    unfolding st8 by (simp add: sample_defs ok_def request_of_def with_host_def startswith_def)
  have rs: "requests_send sample (trace ?s2)
              (request_of (self ?s2) POST (with_host ?nv ?s2) True NoBody) = Inr ?r"
    unfolding st2 by (simp add: sample_defs ok_def request_of_def with_host_def startswith_def)
  have rs3: "requests_send sample
               (trace ?s2 @ [request_of (self ?s2) POST (with_host ?nv ?s2) True NoBody])
               (request_of (self ?s2) GET (with_host (api @ ''/3'') ?s2) True NoBody) = Inr ?g3"
    unfolding st2 by (simp add: sample_defs ok_def request_of_def with_host_def startswith_def)
  have dl: "getitem ?nd ''links'' = Inr (JObj [(''latest_draft'', JStr (api @ ''/3''))])"
    and dld: "getitem (JObj [(''latest_draft'', JStr (api @ ''/3''))]) ''latest_draft''
              = Inr (JStr (api @ ''/3''))"
    by simp_all
  have ok8: "status_code ?g8 \<in> {200, 201}" "body ?g8 = Some draft8"
    and ok2: "status_code ?r \<in> {200, 201}" "body ?r = Some ?nd"
    and ok3: "status_code ?g3 \<in> {200, 201}" "body ?g3 = Some draft3"
    by simp_all
  have nt8: "\<not> truthy (JBool False)" and t2: "truthy (JBool True)" by simp_all
  note T8 = resolve_draft_fetches [OF f8 sub8,
      where links = "JObj [(''latest_draft'', JStr (api @ ''/8''))]" and u = "api @ ''/8''"
        and a = ?g8 and new_version = draft8]
  note T2 = resolve_draft_fetches [OF f2 sub2,
      where links = "JObj [(''newversion'', JStr ?nv)]" and nv = ?nv and r = ?r
        and draft = ?nd
        and dlinks = "JObj [(''latest_draft'', JStr (api @ ''/3''))]" and v = "api @ ''/3''"
        and b = ?g3 and fetched = draft3]
  have a: "list_all (\<lambda>r. meth r \<noteq> POST) (since ?s8 (snd (update_doi sample ''10.5281/zenodo.7'' client)))"
    using T8 nt8 by blast
  have c: "take 1 (since ?s8 (snd (update_doi sample ''10.5281/zenodo.7'' client)))
             = [request_of (self ?s8) GET (with_host (api @ ''/8'') ?s8) True NoBody]"
    using T8 nt8 l8 ld8 by blast
  have e: "fst (update_doi sample ''10.5281/zenodo.7'' client)
             = (case fst (remove_files sample draft8
                         (?s8\<lparr>trace := trace ?s8 @
                              [request_of (self ?s8) GET (with_host (api @ ''/8'') ?s8) True NoBody]\<rparr>)) of
               Inl e \<Rightarrow> Inl e
             | Inr x \<Rightarrow> Inr draft8)"
    using T8 nt8 l8 ld8 rs8 ok8 by blast
  have d: "take 2 (since ?s2 (snd (update_doi sample ''10.5281/zenodo.1'' client)))
             = [request_of (self ?s2) POST (with_host ?nv ?s2) True NoBody,
                request_of (self ?s2) GET (with_host (api @ ''/3'') ?s2) True NoBody]"
    using T2 t2 l2 nv2 rs ok2 dl dld by blast
  have f: "fst (update_doi sample ''10.5281/zenodo.1'' client)
             = (case fst (remove_files sample draft3
                         (?s2\<lparr>trace := trace ?s2 @
                              [request_of (self ?s2) POST (with_host ?nv ?s2) True NoBody,
                               request_of (self ?s2) GET (with_host (api @ ''/3'') ?s2) True NoBody]\<rparr>)) of
               Inl e \<Rightarrow> Inl e
             | Inr x \<Rightarrow> Inr draft3)"
    using T2 t2 l2 nv2 rs ok2 dl dld rs3 ok3 by blast
  have c': "map (\<lambda>r. (meth r, req_url r))
              [request_of (self ?s8) GET (with_host (api @ ''/8'') ?s8) True NoBody]
            = [(GET, ''https://zenodo.org/api/deposit/depositions/8'')]"
    by (simp add: request_of_def with_host_def startswith_def api_def)
  have d': "map (\<lambda>r. (meth r, req_url r))
              [request_of (self ?s2) POST (with_host ?nv ?s2) True NoBody,
               request_of (self ?s2) GET (with_host (api @ ''/3'') ?s2) True NoBody]
            = [(POST, ''https://zenodo.org/api/deposit/depositions/2/actions/newversion''),
               (GET, ''https://zenodo.org/api/deposit/depositions/3'')]"
    by (simp add: request_of_def with_host_def startswith_def api_def)
  have e': "fst (update_doi sample ''10.5281/zenodo.7'' client) = Inr draft8"
    unfolding e by (simp add: sample_remove_8)
  have f': "fst (update_doi sample ''10.5281/zenodo.1'' client) = Inr draft3"
    unfolding f by (simp add: sample_remove_3)
  show ?thesis
    using a c d c' d' e' f' by simp
qed

text \<open>
  The deposit found is not the draft returned: for the unsubmitted deposition 8 the
  lookup is followed by the \<^verbatim>\<open>GET\<close> of its \<open>latest_draft\<close> link, and the body of that
  answer is what \<^verbatim>\<open>update_doi\<close> returns.
\<close>

theorem unsubmitted_deposit_is_fetched:
  "getitem deposit8 ''submitted'' = Inr (JBool False) \<and>
   fst (find_deposit sample ''10.5281/zenodo.7'' client) = Inr (Some deposit8) \<and>
   fst (update_doi sample ''10.5281/zenodo.7'' client) = Inr draft8 \<and>
   draft8 \<noteq> deposit8 \<and>
   map (\<lambda>r. (meth r, req_url r)) (trace (snd (update_doi sample ''10.5281/zenodo.7'' client)))
     = [(GET, ''https://zenodo.org/api/deposit/depositions''),
        (GET, ''https://zenodo.org/api/deposit/depositions/8'')]"
proof -
  have a: "getitem deposit8 ''submitted'' = Inr (JBool False)"
    by (simp add: deposit8_def)
  have b: "draft8 \<noteq> deposit8"
    by (simp add: draft8_def deposit8_def)
  have c: "fst (update_doi sample ''10.5281/zenodo.7'' client) = Inr draft8"
    unfolding client_eq
    by (simp add: update_doi_def find_deposit_def get_depositions_def get_def choose_draft_def
          fetch_draft_def remove_files_def run_defs sample_defs)
  have d: "map (\<lambda>r. (meth r, req_url r)) (trace (snd (update_doi sample ''10.5281/zenodo.7'' client)))
     = [(GET, ''https://zenodo.org/api/deposit/depositions''),
        (GET, ''https://zenodo.org/api/deposit/depositions/8'')]"
    unfolding client_eq
    by (simp add: update_doi_def find_deposit_def get_depositions_def get_def choose_draft_def
          fetch_draft_def remove_files_def run_defs sample_defs)
  from a sample_find_8 c b d show ?thesis by simp
qed

section \<open>The metadata sent\<close>

lemma getitem_setitem:
  "setitem m k v = Inr m' \<Longrightarrow> getitem m' k' = (if k' = k then Inr v else getitem m k')"
  by (cases m) (auto simp: update_conv')



lemma and_then_Inr:
  "and_then r f = Inr y \<Longrightarrow> \<exists>x. r = Inr x \<and> f x = Inr y"
  by (cases r) (simp_all add: and_then_def)

lemma metadata_overrides_title:
  assumes "metadata_overrides m html_url title description description_file = Inr md"
  shows "title = Some t \<Longrightarrow> getitem md ''title'' = Inr (JStr t)"
    and "description = Some d \<Longrightarrow> getitem md ''description'' = Inr (JStr d)"
    and "description = None \<Longrightarrow> description_file = Some c \<Longrightarrow> getitem md ''description'' = Inr (JStr c)"
proof -
  from assms obtain m1 m2 where
    m2: "(case title of None \<Rightarrow> Inr m1 | Some t \<Rightarrow> setitem m1 ''title'' (JStr t)) = Inr m2"
    and md: "(case description of
                Some d \<Rightarrow> setitem m2 ''description'' (JStr d)
              | None \<Rightarrow> (case description_file of
                           Some content \<Rightarrow> setitem m2 ''description'' (JStr content)
                         | None \<Rightarrow> Inr m2)) = Inr md"
    unfolding metadata_overrides_def by (blast dest: and_then_Inr)
  show "title = Some t \<Longrightarrow> getitem md ''title'' = Inr (JStr t)"
    using m2 md by (auto simp: getitem_setitem split: option.splits)
  show "description = Some d \<Longrightarrow> getitem md ''description'' = Inr (JStr d)"
    using md by (auto simp: getitem_setitem)
  show "description = None \<Longrightarrow> description_file = Some c \<Longrightarrow> getitem md ''description'' = Inr (JStr c)"
    using md by (auto simp: getitem_setitem)
qed




lemma upload_metadata_sends:
  assumes "trace (snd (upload_metadata w upload zenodo_json version html_url title description
                         description_file s)) \<noteq> trace s"
  shows "\<exists>m md ident.
           metadata_fixed w upload zenodo_json version = Inr m \<and>
           metadata_overrides m html_url title description description_file = Inr md \<and>
           getitem upload ''id'' = Inr ident \<and>
           trace (snd (upload_metadata w upload zenodo_json version html_url title description
                         description_file s)) = trace s @ [metadata_request w s ident md]"
proof (cases "metadata_fixed w upload zenodo_json version")
  case (Inl e)
  with assms show ?thesis by (simp add: upload_metadata_def throw_def)
next
  case (Inr m)
  note m = this
  show ?thesis
  proof (cases "metadata_overrides m html_url title description description_file")
    case (Inl e)
    with assms m show ?thesis
      by (simp add: upload_metadata_def throw_def headers_update_def bind_def [of "headers_update _ _"])
  next
    case (Inr md)
    note md = this
    show ?thesis
    proof (cases "getitem upload ''id''")
      case (Inl e)
      with assms m md show ?thesis
        by (simp add: upload_metadata_def throw_def headers_update_def
              bind_def [of "headers_update _ _"])
    next
      case (Inr ident)
      with m md show ?thesis
        by (simp add: upload_metadata_def headers_update_def bind_def [of "headers_update _ _"]
              trace_bind_send metadata_request_def split: sum.splits)
    qed
  qed
qed



lemma sent_since:
  "trace s' = trace s @ [rq] \<Longrightarrow> map payload (since s s') = [payload rq]"
  by (simp add: since_def)

text \<open>
  C8. In \<^verbatim>\<open>upload_metadata\<close> a title given overrides the title of the template, a literal
  description given is the description sent whether or not a description file is given,
  and the contents of the description file are the description sent when no literal
  description is given. This is stated of the metadata in the request that is sent.
\<close>

theorem explicit_title_and_description:
  assumes "trace (snd (upload_metadata w upload zenodo_json version html_url title description
                         description_file s)) \<noteq> trace s"
  shows "\<exists>md.
           map payload (since s (snd (upload_metadata w upload zenodo_json version html_url title
                                        description description_file s)))
             = [DataText (JObj [(''metadata'', md)])] \<and>
           (\<forall>t. title = Some t \<longrightarrow> getitem md ''title'' = Inr (JStr t)) \<and>
           (\<forall>d. description = Some d \<longrightarrow> getitem md ''description'' = Inr (JStr d)) \<and>
           (\<forall>c. description = None \<and> description_file = Some c \<longrightarrow>
                  getitem md ''description'' = Inr (JStr c))"
proof -
  from upload_metadata_sends [OF assms] obtain m md ident where
    ov: "metadata_overrides m html_url title description description_file = Inr md"
    and tr: "trace (snd (upload_metadata w upload zenodo_json version html_url title description
                         description_file s)) = trace s @ [metadata_request w s ident md]"
    by blast
  have "map payload (since s (snd (upload_metadata w upload zenodo_json version html_url title
                                        description description_file s)))
             = [DataText (JObj [(''metadata'', md)])]"
    using sent_since [OF tr] by (simp add: metadata_request_def request_of_def)
  moreover have "\<forall>t. title = Some t \<longrightarrow> getitem md ''title'' = Inr (JStr t)"
    using metadata_overrides_title(1) [OF ov] by simp
  moreover have "\<forall>d. description = Some d \<longrightarrow> getitem md ''description'' = Inr (JStr d)"
    using metadata_overrides_title(2) [OF ov] by simp
  moreover have "\<forall>c. description = None \<and> description_file = Some c \<longrightarrow>
                  getitem md ''description'' = Inr (JStr c)"
    using metadata_overrides_title(3) [OF ov] by simp
  ultimately show ?thesis
    by (intro exI [of _ md] conjI)
qed


lemmas metadata_defs =
  upload_metadata_def metadata_fixed_def template_merge_def metadata_overrides_def
  headers_update_def and_then_def

lemma sent1:
  "trace (snd (upload_metadata sample draft3 (Some ''/repo/zenodo.json'') ''1.0'' None
                 (Some ''new title'') (Some ''literal'') (Some ''from file'') client)) \<noteq> trace client"
  unfolding client_eq
  by (simp add: metadata_defs run_defs sample_defs)

lemma sent2:
  "trace (snd (upload_metadata sample draft3 None ''1.0'' None
                 None None (Some ''from file'') client)) \<noteq> trace client"
  unfolding client_eq
  by (simp add: metadata_defs run_defs sample_defs)



theorem explicit_title_and_description_witness:
  "(\<exists>md. map payload (since client
            (snd (upload_metadata sample draft3 (Some ''/repo/zenodo.json'') ''1.0'' None
                    (Some ''new title'') (Some ''literal'') (Some ''from file'') client)))
            = [DataText (JObj [(''metadata'', md)])] \<and>
         getitem md ''title'' = Inr (JStr ''new title'') \<and>
         getitem md ''description'' = Inr (JStr ''literal'')) \<and>
   (\<exists>md. map payload (since client
            (snd (upload_metadata sample draft3 None ''1.0'' None None None (Some ''from file'')
                    client)))
            = [DataText (JObj [(''metadata'', md)])] \<and>
         getitem md ''description'' = Inr (JStr ''from file''))"
proof -
  let ?run1 = "snd (upload_metadata sample draft3 (Some ''/repo/zenodo.json'') ''1.0'' None
                    (Some ''new title'') (Some ''literal'') (Some ''from file'') client)"
  let ?run2 = "snd (upload_metadata sample draft3 None ''1.0'' None None None (Some ''from file'')
                    client)"
  from explicit_title_and_description [OF sent1] obtain md where
    X: "map payload (since client ?run1) = [DataText (JObj [(''metadata'', md)])] \<and>
        (\<forall>t. Some ''new title'' = Some t \<longrightarrow> getitem md ''title'' = Inr (JStr t)) \<and>
        (\<forall>d. Some ''literal'' = Some d \<longrightarrow> getitem md ''description'' = Inr (JStr d)) \<and>
        (\<forall>c. Some ''literal'' = None \<and> Some ''from file'' = Some c \<longrightarrow>
               getitem md ''description'' = Inr (JStr c))" ..
  from X have p: "map payload (since client ?run1) = [DataText (JObj [(''metadata'', md)])]"
    by (rule conjunct1)
  from X have "\<forall>t. Some ''new title'' = Some t \<longrightarrow> getitem md ''title'' = Inr (JStr t)"
    by (rule conjunct2 [THEN conjunct1])
  then have t: "getitem md ''title'' = Inr (JStr ''new title'')" by simp
  from X have "\<forall>d. Some ''literal'' = Some d \<longrightarrow> getitem md ''description'' = Inr (JStr d)"
    by (rule conjunct2 [THEN conjunct2, THEN conjunct1])
  then have d: "getitem md ''description'' = Inr (JStr ''literal'')" by simp
  from p t d have a: "\<exists>md. map payload (since client ?run1) = [DataText (JObj [(''metadata'', md)])] \<and>
         getitem md ''title'' = Inr (JStr ''new title'') \<and>
         getitem md ''description'' = Inr (JStr ''literal'')"
    by (intro exI [of _ md] conjI)
  from explicit_title_and_description [OF sent2] obtain md2 where
    Y: "map payload (since client ?run2) = [DataText (JObj [(''metadata'', md2)])] \<and>
        (\<forall>t. None = Some t \<longrightarrow> getitem md2 ''title'' = Inr (JStr t)) \<and>
        (\<forall>d. None = Some d \<longrightarrow> getitem md2 ''description'' = Inr (JStr d)) \<and>
        (\<forall>c. (None :: string option) = None \<and> Some ''from file'' = Some c \<longrightarrow>
               getitem md2 ''description'' = Inr (JStr c))" ..
  from Y have p2: "map payload (since client ?run2) = [DataText (JObj [(''metadata'', md2)])]"
    by (rule conjunct1)
  from Y have "\<forall>c. (None :: string option) = None \<and> Some ''from file'' = Some c \<longrightarrow>
               getitem md2 ''description'' = Inr (JStr c)"
    by (rule conjunct2 [THEN conjunct2, THEN conjunct2])
  then have f: "getitem md2 ''description'' = Inr (JStr ''from file'')" by simp
  from p2 f have b: "\<exists>md. map payload (since client ?run2) = [DataText (JObj [(''metadata'', md)])] \<and>
         getitem md ''description'' = Inr (JStr ''from file'')"
    by (intro exI [of _ md2] conjI)
  from a b show ?thesis by (rule conjI)
qed



section \<open>Calls that are refused\<close>

lemma refuse [simp]:
  "fst (bind (lift (json_of r)) (\<lambda>b. sys_exit (Fmt fmt (args @ [AJson b]))) s) = refused r fmt args"
  by (simp add: refused_def json_of_def sys_exit_def throw_def split: option.splits)

lemma get_depositions_refused:
  assumes "requests_send w (trace s) (list_request (self s)) = Inr r"
    and "status_code r \<notin> {200, 201}"
  shows "fst (get_depositions w s)
           = refused r ''Cannot query depositions: %s, %s'' [AInt (status_code r)]"
proof -
  have "get w (JStr ''/api/deposit/depositions'') s
          = (Inr r, s\<lparr>trace := trace s @ [list_request (self s)]\<rparr>)"
    using assms(1) by (simp add: get_str list_request_def with_host_def startswith_def)
  then show ?thesis
    unfolding get_depositions_def
    by (simp add: bind_def [of "get w _"] assms(2) refuse [of r _ "[AInt (status_code r)]", simplified]
          del: insert_iff)
qed

lemma new_doi_refused:
  assumes "requests_send w (trace s)
             (request_of (self s) POST ''https://zenodo.org/api/deposit/depositions'' True
                (JsonBody (JObj []))) = Inr r"
    and "status_code r \<notin> {200, 201}"
  shows "fst (new_doi w s)
           = refused r ''Trouble requesting new upload: %s, %s'' [AInt (status_code r)]"
proof -
  have "send w POST ''https://zenodo.org/api/deposit/depositions'' True (JsonBody (JObj [])) s
          = (Inr r, s\<lparr>trace := trace s @
               [request_of (self s) POST ''https://zenodo.org/api/deposit/depositions'' True
                  (JsonBody (JObj []))]\<rparr>)"
    using assms(1) by (simp add: send_eq)
  then show ?thesis
    unfolding new_doi_def
    by (simp add: bind_def [of "send w _ _ _ _"] assms(2)
          refuse [of r _ "[AInt (status_code r)]", simplified] del: insert_iff)
qed

lemma choose_draft_refused:
  assumes "getitem t ''submitted'' = Inr sub" and "truthy sub"
    and "getitem t ''links'' = Inr l" and "getitem l ''newversion'' = Inr (JStr nv)"
    and "requests_send w (trace s) (request_of (self s) POST (with_host nv s) True NoBody) = Inr r"
    and "status_code r \<notin> {200, 201}"
  shows "fst (choose_draft w doi t s)
           = refused r ''Cannot create a new version for doi '%s'. %s'' [AStr doi]"
  using choose_draft_submitted [OF assms(1-4), of w doi s] assms(5,6)
  by (simp add: refused_def split: option.splits del: insert_iff)

lemma fetch_draft_refused:
  assumes "getitem draft ''links'' = Inr l" and "getitem l ''latest_draft'' = Inr (JStr u)"
    and "requests_send w (trace s) (request_of (self s) GET (with_host u s) True NoBody) = Inr r"
    and "status_code r \<notin> {200, 201}"
  shows "fst (fetch_draft w doi draft s)
           = refused r ''Cannot create a draft for doi '%s'. %s'' [AStr doi]"
proof -
  have "get w (JStr u) s
          = (Inr r, s\<lparr>trace := trace s @ [request_of (self s) GET (with_host u s) True NoBody]\<rparr>)"
    using assms(3) by (simp add: get_str)
  then show ?thesis
    unfolding fetch_draft_def
    by (simp only: assms(1,2) bind_lift_Inr)
       (simp add: bind_def [of "get w _"] assms(4) refuse [of r _ "[AStr doi]", simplified]
          del: insert_iff)
qed

lemma finish_refused:
  assumes "getitem draft ''links'' = Inr l" and "getitem l ''latest_draft'' = Inr (JStr u)"
    and "requests_send w (trace s) (request_of (self s) GET (with_host u s) True NoBody) = Inr r"
    and "status_code r \<notin> {200, 201}"
  shows "fst (finish w doi draft s)
           = refused r ''Cannot create a draft for doi '%s'. %s'' [AStr doi]"
proof -
  obtain x s' where f: "fetch_draft w doi draft s = (x, s')" by (cases "fetch_draft w doi draft s")
  with fetch_draft_refused [OF assms, of doi]
  have x: "x = refused r ''Cannot create a draft for doi '%s'. %s'' [AStr doi]" by simp
  then obtain e where e: "x = Inl e" by (auto simp: refused_def split: option.splits)
  from f e have "fetch_draft w doi draft s = (Inl e, s')" by simp
  then have "fst (finish w doi draft s) = Inl e" by (simp add: finish_def bind_def)
  with x e show ?thesis by simp
qed

lemma Zenodo_upload_archive_refused:
  assumes "getitem upload ''links'' = Inr l" and "getitem l ''bucket'' = Inr bucket_url"
    and "can_open w archive"
    and "requests_send w (trace s)
           (request_of (self s) PUT (py_str w bucket_url @ ''/'' @ basename archive) False
              (DataFile archive)) = Inr r"
    and "status_code r \<notin> {200, 201}"
  shows "fst (Zenodo_upload_archive w upload archive s)
           = Inl (Exit (Fmt ''Trouble uploading artifact %s to bucket with response code %s''
                          [AStr archive, AInt (status_code r)]))"
proof -
  have "send w PUT (py_str w bucket_url @ ''/'' @ basename archive) False (DataFile archive) s
          = (Inr r, s\<lparr>trace := trace s @
               [request_of (self s) PUT (py_str w bucket_url @ ''/'' @ basename archive) False
                  (DataFile archive)]\<rparr>)"
    using assms(4) by (simp add: send_eq)
  then show ?thesis
    unfolding Zenodo_upload_archive_def
    by (simp only: assms(1,2) bind_lift_Inr)
       (simp add: assms(3,5) bind_def [of "send w _ _ _ _"] sys_exit_def throw_def del: insert_iff)
qed

lemma publish_refused:
  assumes "getitem data ''links'' = Inr l" and "getitem l ''publish'' = Inr publish_url"
    and "requests_send w (trace s)
           (request_of (self s) POST (py_str w publish_url) False NoBody) = Inr r"
    and "status_code r \<notin> {200, 201, 202}"
  shows "fst (publish w data s)
           = refused r ''Issue publishing record: %s, %s'' [AInt (status_code r)]"
proof -
  let ?s' = "s\<lparr>trace := trace s @ [request_of (self s) POST (py_str w publish_url) False NoBody]\<rparr>"
  have sd: "send w POST (py_str w publish_url) False NoBody s = (Inr r, ?s')"
    using assms(3) by (simp add: send_eq)
  have chk: "fst ((if status_code r \<notin> {200, 201, 202} then
             bind (lift (json_of r)) (\<lambda>b.
               sys_exit (Fmt ''Issue publishing record: %s, %s'' [AInt (status_code r), AJson b]))
           else ret ()) ?s') = refused r ''Issue publishing record: %s, %s'' [AInt (status_code r)]"
    using assms(4) refuse [of r _ "[AInt (status_code r)]" ?s', simplified]
    by (simp del: insert_iff)
  obtain x s2 where c: "(if status_code r \<notin> {200, 201, 202} then
             bind (lift (json_of r)) (\<lambda>b.
               sys_exit (Fmt ''Issue publishing record: %s, %s'' [AInt (status_code r), AJson b]))
           else ret ()) ?s' = (x, s2)"
    by (metis prod.collapse)
  with chk have x: "x = refused r ''Issue publishing record: %s, %s'' [AInt (status_code r)]"
    by simp
  then obtain e where e: "x = Inl e" by (auto simp: refused_def split: option.splits)
  show ?thesis
    unfolding publish_def
    apply (simp only: assms(1,2) bind_lift_Inr)
    apply (subst bind_def)
    apply (simp only: sd prod.case sum.case)
    apply (subst bind_def)
    apply (simp only: c prod.case e sum.case fst_conv)
    apply (simp add: x [symmetric] e)
    done
qed

lemma upload_metadata_refused:
  assumes "metadata_fixed w upload zenodo_json version = Inr m"
    and "metadata_overrides m html_url title description description_file = Inr md"
    and "getitem upload ''id'' = Inr ident"
    and "requests_send w (trace s) (metadata_request w s ident md) = Inr r"
    and "status_code r \<noteq> 200"
  shows "fst (upload_metadata w upload zenodo_json version html_url title description
                description_file s)
           = refused r ''Trouble uploading metadata %s, %s'' [AInt (status_code r)]"
proof -
  let ?s1 = "s\<lparr>self := (self s)\<lparr>self_headers :=
                 AList.update ''Content-Type'' ''application/json'' (self_headers (self s))\<rparr>\<rparr>"
  have rq: "request_of (self ?s1) PUT (''https://zenodo.org/api/deposit/depositions/'' @ py_str w ident)
              True (DataText (JObj [(''metadata'', md)])) = metadata_request w s ident md"
    by (simp add: metadata_request_def)
  have sd: "send w PUT (''https://zenodo.org/api/deposit/depositions/'' @ py_str w ident) True
              (DataText (JObj [(''metadata'', md)])) ?s1
            = (Inr r, ?s1\<lparr>trace := trace s @ [metadata_request w s ident md]\<rparr>)"
    using assms(4) by (simp add: send_eq metadata_request_def)
  show ?thesis
    unfolding upload_metadata_def
    apply (simp only: assms(1) bind_lift_Inr)
    apply (simp only: bind_def [of "headers_update _ _"] headers_update_def prod.case sum.case)
    apply (simp only: assms(2,3) bind_lift_Inr)
    apply (subst bind_def)
    apply (simp only: sd prod.case sum.case)
    apply (simp add: assms(5) refuse [of r _ "[AInt (status_code r)]", simplified])
    done
qed

lemma refused_Inl: "\<exists>e. refused r fmt args = Inl e"
  by (simp add: refused_def split: option.splits)

lemma bind_fst_Inl: "fst (m s) = Inl e \<Longrightarrow> fst (bind m f s) = Inl e"
  by (cases "m s") (simp add: bind_def)

lemma update_doi_newversion_refused:
  assumes "find_deposit w doi s = (Inr (Some target), s1)"
    and "getitem target ''submitted'' = Inr submitted" and "truthy submitted"
    and "getitem target ''links'' = Inr links" and "getitem links ''newversion'' = Inr (JStr nv)"
    and "requests_send w (trace s1) (request_of (self s1) POST (with_host nv s1) True NoBody) = Inr r"
    and "status_code r \<notin> {200, 201}"
  shows "fst (update_doi w doi s)
           = refused r ''Cannot create a new version for doi '%s'. %s'' [AStr doi]"
proof -
  note c = choose_draft_refused [OF assms(2-7), of doi]
  obtain e where e: "fst (choose_draft w doi target s1) = Inl e"
    unfolding c using refused_Inl by blast
  then have "fst (bind (choose_draft w doi target) (finish w doi) s1) = Inl e"
    by (rule bind_fst_Inl)
  with e have "fst (update_doi w doi s) = fst (choose_draft w doi target s1)"
    by (simp add: update_doi_found [OF assms(1)])
  then show ?thesis by (simp only: c)
qed

lemma update_doi_fetch_refused:
  assumes "find_deposit w doi s = (Inr (Some target), s1)"
    and "getitem target ''submitted'' = Inr submitted" and "\<not> truthy submitted"
    and "getitem target ''links'' = Inr links" and "getitem links ''latest_draft'' = Inr (JStr u)"
    and "requests_send w (trace s1) (request_of (self s1) GET (with_host u s1) True NoBody) = Inr r"
    and "status_code r \<notin> {200, 201}"
  shows "fst (update_doi w doi s)
           = refused r ''Cannot create a draft for doi '%s'. %s'' [AStr doi]"
proof -
  have c: "choose_draft w doi target s1 = (Inr target, s1)"
    using assms(2,3) by (rule choose_draft_unsubmitted)
  have "update_doi w doi s = finish w doi target s1"
    using update_doi_found [OF assms(1)] c by (simp add: bind_def)
  then show ?thesis using finish_refused [OF assms(4-7), of doi] by simp
qed

lemma update_doi_second_fetch_refused:
  assumes "find_deposit w doi s = (Inr (Some target), s1)"
    and "getitem target ''submitted'' = Inr submitted" and "truthy submitted"
    and "getitem target ''links'' = Inr links" and "getitem links ''newversion'' = Inr (JStr nv)"
    and "requests_send w (trace s1) (request_of (self s1) POST (with_host nv s1) True NoBody) = Inr a"
    and "status_code a \<in> {200, 201}" and "body a = Some draft"
    and "getitem draft ''links'' = Inr dlinks" and "getitem dlinks ''latest_draft'' = Inr (JStr v)"
    and "requests_send w (trace s1 @ [request_of (self s1) POST (with_host nv s1) True NoBody])
           (request_of (self s1) GET (with_host v s1) True NoBody) = Inr r"
    and "status_code r \<notin> {200, 201}"
  shows "fst (update_doi w doi s)
           = refused r ''Cannot create a draft for doi '%s'. %s'' [AStr doi]"
proof -
  let ?s2 = "s1\<lparr>trace := trace s1 @ [request_of (self s1) POST (with_host nv s1) True NoBody]\<rparr>"
  have "choose_draft w doi target s1 = (Inr draft, ?s2)"
    using choose_draft_submitted [OF assms(2-5), of w doi s1] assms(6-8) by auto
  then have u: "update_doi w doi s = finish w doi draft ?s2"
    using update_doi_found [OF assms(1)] by (simp add: bind_def)
  have rs: "requests_send w (trace ?s2) (request_of (self ?s2) GET (with_host v ?s2) True NoBody)
              = Inr r"
    using assms(11) by simp
  from finish_refused [OF assms(9,10) rs assms(12), of doi] u show ?thesis by simp
qed

text \<open>
  C2. A required call that is answered with a status outside of its accepted set ends the
  run. \<open>refused r fmt args\<close> is the exit with the message of format \<open>fmt\<close> whose
  arguments are \<open>args\<close> followed by the body of the answer \<open>r\<close> (and the error of
  \<^verbatim>\<open>response.json()\<close> when that body is no JSON document). The listing, the creation, the
  metadata call and the publication exit with the status code and the body; the request of
  a new version and the fetch of the draft exit with the DOI and the body, without the
  status code; the upload of a file exits with the path of the archive and the status
  code, without the body.
\<close>

theorem unaccepted_status_is_fatal:
  "(requests_send w (trace s) (list_request (self s)) = Inr r \<and> status_code r \<notin> {200, 201} \<longrightarrow>
      fst (get_depositions w s)
        = refused r ''Cannot query depositions: %s, %s'' [AInt (status_code r)]) \<and>
   (requests_send w (trace s)
      (request_of (self s) POST ''https://zenodo.org/api/deposit/depositions'' True
         (JsonBody (JObj []))) = Inr r \<and>
    status_code r \<notin> {200, 201} \<longrightarrow>
      fst (new_doi w s)
        = refused r ''Trouble requesting new upload: %s, %s'' [AInt (status_code r)]) \<and>
   (find_deposit w doi s = (Inr (Some target), s1) \<and>
    getitem target ''submitted'' = Inr submitted \<and> truthy submitted \<and>
    getitem target ''links'' = Inr links \<and> getitem links ''newversion'' = Inr (JStr nv) \<and>
    requests_send w (trace s1) (request_of (self s1) POST (with_host nv s1) True NoBody) = Inr r \<and>
    status_code r \<notin> {200, 201} \<longrightarrow>
      fst (update_doi w doi s)
        = refused r ''Cannot create a new version for doi '%s'. %s'' [AStr doi]) \<and>
   (find_deposit w doi s = (Inr (Some target), s1) \<and>
    getitem target ''submitted'' = Inr submitted \<and> \<not> truthy submitted \<and>
    getitem target ''links'' = Inr links \<and> getitem links ''latest_draft'' = Inr (JStr u) \<and>
    requests_send w (trace s1) (request_of (self s1) GET (with_host u s1) True NoBody) = Inr r \<and>
    status_code r \<notin> {200, 201} \<longrightarrow>
      fst (update_doi w doi s)
        = refused r ''Cannot create a draft for doi '%s'. %s'' [AStr doi]) \<and>
   (find_deposit w doi s = (Inr (Some target), s1) \<and>
    getitem target ''submitted'' = Inr submitted \<and> truthy submitted \<and>
    getitem target ''links'' = Inr links \<and> getitem links ''newversion'' = Inr (JStr nv) \<and>
    requests_send w (trace s1) (request_of (self s1) POST (with_host nv s1) True NoBody) = Inr a \<and>
    status_code a \<in> {200, 201} \<and> body a = Some draft \<and>
    getitem draft ''links'' = Inr dlinks \<and> getitem dlinks ''latest_draft'' = Inr (JStr v) \<and>
    requests_send w (trace s1 @ [request_of (self s1) POST (with_host nv s1) True NoBody])
      (request_of (self s1) GET (with_host v s1) True NoBody) = Inr r \<and>
    status_code r \<notin> {200, 201} \<longrightarrow>
      fst (update_doi w doi s)
        = refused r ''Cannot create a draft for doi '%s'. %s'' [AStr doi]) \<and>
   (getitem upload ''links'' = Inr ulinks \<and> getitem ulinks ''bucket'' = Inr bucket_url \<and>
    can_open w archive \<and>
    requests_send w (trace s)
      (request_of (self s) PUT (py_str w bucket_url @ ''/'' @ basename archive) False
         (DataFile archive)) = Inr r \<and>
    status_code r \<notin> {200, 201} \<longrightarrow>
      fst (Zenodo_upload_archive w upload archive s)
        = Inl (Exit (Fmt ''Trouble uploading artifact %s to bucket with response code %s''
                       [AStr archive, AInt (status_code r)]))) \<and>
   (metadata_fixed w upload zenodo_json version = Inr m \<and>
    metadata_overrides m html_url title description description_file = Inr md \<and>
    getitem upload ''id'' = Inr ident \<and>
    requests_send w (trace s) (metadata_request w s ident md) = Inr r \<and>
    status_code r \<noteq> 200 \<longrightarrow>
      fst (upload_metadata w upload zenodo_json version html_url title description
             description_file s)
        = refused r ''Trouble uploading metadata %s, %s'' [AInt (status_code r)]) \<and>
   (getitem data ''links'' = Inr plinks \<and> getitem plinks ''publish'' = Inr publish_url \<and>
    requests_send w (trace s) (request_of (self s) POST (py_str w publish_url) False NoBody)
      = Inr r \<and>
    status_code r \<notin> {200, 201, 202} \<longrightarrow>
      fst (publish w data s)
        = refused r ''Issue publishing record: %s, %s'' [AInt (status_code r)])"
  apply (intro conjI impI)
         apply (elim conjE, rule get_depositions_refused; assumption)
        apply (elim conjE, rule new_doi_refused; assumption)
       apply (elim conjE, rule update_doi_newversion_refused; assumption)
      apply (elim conjE, rule update_doi_fetch_refused; assumption)
     apply (elim conjE, rule update_doi_second_fetch_refused; assumption)
    apply (elim conjE, rule Zenodo_upload_archive_refused; assumption)
   apply (elim conjE, rule upload_metadata_refused; assumption)
  apply (elim conjE, rule publish_refused; assumption)
  done

lemma down_answer:
  "(meth rq, req_url rq) \<notin> set served \<Longrightarrow>
   requests_send (down_except served) tr rq = Inr \<lparr>status_code = 500, body = Some server_error\<rparr>"
  by (simp add: down_except_def ok_def)

lemma down_served:
  "(meth rq, req_url rq) \<in> set served \<Longrightarrow>
   requests_send (down_except served) tr rq = requests_send sample tr rq"
  by (simp add: down_except_def)

lemma down_world [simp]:
  "can_open (down_except served) = can_open sample"
  "repr (down_except served) = repr sample"
  "json_file (down_except served) = json_file sample"
  "today (down_except served) = today sample"
  "abspath (down_except served) = abspath sample"
  "path_exists (down_except served) = path_exists sample"
  "glob (down_except served) = glob sample"
  by (simp_all add: down_except_def)

lemma py_str_down [simp]: "py_str (down_except served) = py_str sample"
  by (rule ext) (simp add: py_str_def split: json.splits)

lemma down_find:
  "find_deposit (down_except ((GET, api) # others)) doi client = find_deposit sample doi client"
  unfolding client_eq
  by (simp add: find_deposit_def get_depositions_def get_def send_def http_def request_of_def
        with_host_def startswith_def down_except_def api_def bind_def)

theorem unaccepted_status_is_fatal_witness:
  "fst (get_depositions (down_except []) client)
     = Inl (Exit (Fmt ''Cannot query depositions: %s, %s'' [AInt 500, AJson server_error])) \<and>
   fst (new_doi (down_except []) client)
     = Inl (Exit (Fmt ''Trouble requesting new upload: %s, %s'' [AInt 500, AJson server_error])) \<and>
   fst (update_doi (down_except [(GET, api)]) ''10.5281/zenodo.1'' client)
     = Inl (Exit (Fmt ''Cannot create a new version for doi '%s'. %s''
                    [AStr ''10.5281/zenodo.1'', AJson server_error])) \<and>
   fst (update_doi (down_except [(GET, api)]) ''10.5281/zenodo.7'' client)
     = Inl (Exit (Fmt ''Cannot create a draft for doi '%s'. %s''
                    [AStr ''10.5281/zenodo.7'', AJson server_error])) \<and>
   fst (update_doi (down_except [(GET, api), (POST, api @ ''/2/actions/newversion'')])
          ''10.5281/zenodo.1'' client)
     = Inl (Exit (Fmt ''Cannot create a draft for doi '%s'. %s''
                    [AStr ''10.5281/zenodo.1'', AJson server_error])) \<and>
   fst (Zenodo_upload_archive (down_except []) draft3 ''/repo/a.zip'' client)
     = Inl (Exit (Fmt ''Trouble uploading artifact %s to bucket with response code %s''
                    [AStr ''/repo/a.zip'', AInt 500])) \<and>
   fst (upload_metadata (down_except []) draft3 None ''1.0'' None None None None client)
     = Inl (Exit (Fmt ''Trouble uploading metadata %s, %s'' [AInt 500, AJson server_error])) \<and>
   fst (publish (down_except []) draft3 client)
     = Inl (Exit (Fmt ''Issue publishing record: %s, %s'' [AInt 500, AJson server_error]))"
proof -
  let ?W0 = "down_except []"
  let ?W1 = "down_except [(GET, api)]"
  let ?nv = "api @ ''/2/actions/newversion''"
  let ?W2 = "down_except [(GET, api), (POST, ?nv)]"
  let ?e = "\<lparr>status_code = 500, body = Some server_error\<rparr>"
  let ?s8 = "snd (find_deposit sample ''10.5281/zenodo.7'' client)"
  let ?s2 = "snd (find_deposit sample ''10.5281/zenodo.1'' client)"
  let ?nd = "JObj [(''links'', JObj [(''latest_draft'', JStr (api @ ''/3''))])]"
  let ?a = "\<lparr>status_code = 201, body = Some ?nd\<rparr>"
  let ?l3 = "JObj [(''bucket'', JStr ''https://zenodo.org/api/files/b3''),
                   (''publish'', JStr (api @ ''/3/actions/publish'')),
                   (''latest_draft'', JStr (api @ ''/3''))]"
  have bad: "status_code ?e \<notin> {200, 201}" "status_code ?e \<noteq> 200"
    "status_code ?e \<notin> {200, 201, 202}"
    by simp_all
  have f8: "find_deposit ?W1 ''10.5281/zenodo.7'' client = (Inr (Some deposit8), ?s8)"
    unfolding down_find using sample_find_8 by (metis prod.collapse)
  have f2: "find_deposit ?W1 ''10.5281/zenodo.1'' client = (Inr (Some deposit2), ?s2)"
    unfolding down_find using sample_find_2 by (metis prod.collapse)
  have f2': "find_deposit ?W2 ''10.5281/zenodo.1'' client = (Inr (Some deposit2), ?s2)"
    unfolding down_find using sample_find_2 by (metis prod.collapse)
  have sub8: "getitem deposit8 ''submitted'' = Inr (JBool False)"
    and l8: "getitem deposit8 ''links'' = Inr (JObj [(''latest_draft'', JStr (api @ ''/8''))])"
    and ld8: "getitem (JObj [(''latest_draft'', JStr (api @ ''/8''))]) ''latest_draft''
                = Inr (JStr (api @ ''/8''))"
    by (simp_all add: deposit8_def)
  have sub2: "getitem deposit2 ''submitted'' = Inr (JBool True)"
    and l2: "getitem deposit2 ''links'' = Inr (JObj [(''newversion'', JStr ?nv)])"
    and nv2: "getitem (JObj [(''newversion'', JStr ?nv)]) ''newversion'' = Inr (JStr ?nv)"
    by (simp_all add: deposit2_def)
  have nt8: "\<not> truthy (JBool False)" and t2: "truthy (JBool True)" by simp_all
  have st2: "self ?s2 = self client" "trace ?s2 = [list_request (self client)]"
    and st8: "self ?s8 = self client" "trace ?s8 = [list_request (self client)]"
    using sample_find_state by simp_all
  have r1: "requests_send ?W0 (trace client) (list_request (self client)) = Inr ?e"
    by (simp add: down_answer)
  have r2: "requests_send ?W0 (trace client)
              (request_of (self client) POST ''https://zenodo.org/api/deposit/depositions'' True
                 (JsonBody (JObj []))) = Inr ?e"
    by (simp add: down_answer)
  have r3: "requests_send ?W1 (trace ?s2)
              (request_of (self ?s2) POST (with_host ?nv ?s2) True NoBody) = Inr ?e"
    by (rule down_answer) (simp add: request_of_def)
  have r4: "requests_send ?W1 (trace ?s8)
              (request_of (self ?s8) GET (with_host (api @ ''/8'') ?s8) True NoBody) = Inr ?e"
    by (rule down_answer) (simp add: request_of_def with_host_def startswith_def api_def)
  have r5: "requests_send ?W2 (trace ?s2)
              (request_of (self ?s2) POST (with_host ?nv ?s2) True NoBody) = Inr ?a"
    unfolding st2
    by (simp add: down_except_def sample_defs ok_def request_of_def with_host_def startswith_def)
  have ok5: "status_code ?a \<in> {200, 201}" "body ?a = Some ?nd" by simp_all
  have dl: "getitem ?nd ''links'' = Inr (JObj [(''latest_draft'', JStr (api @ ''/3''))])"
    and dld: "getitem (JObj [(''latest_draft'', JStr (api @ ''/3''))]) ''latest_draft''
              = Inr (JStr (api @ ''/3''))"
    by simp_all
  have r6: "requests_send ?W2
              (trace ?s2 @ [request_of (self ?s2) POST (with_host ?nv ?s2) True NoBody])
              (request_of (self ?s2) GET (with_host (api @ ''/3'') ?s2) True NoBody) = Inr ?e"
    by (rule down_answer) (simp add: request_of_def with_host_def startswith_def api_def)
  have ul: "getitem draft3 ''links'' = Inr ?l3"
    and ub: "getitem ?l3 ''bucket'' = Inr (JStr ''https://zenodo.org/api/files/b3'')"
    and up: "getitem ?l3 ''publish'' = Inr (JStr (api @ ''/3/actions/publish''))"
    and ui: "getitem draft3 ''id'' = Inr (JNum 3)"
    by (simp_all add: draft3_def)
  have co: "can_open ?W0 ''/repo/a.zip''"
    by (simp add: sample_def)
  have r7: "requests_send ?W0 (trace client)
              (request_of (self client) PUT
                 (py_str ?W0 (JStr ''https://zenodo.org/api/files/b3'') @ ''/'' @ basename ''/repo/a.zip'')
                 False (DataFile ''/repo/a.zip'')) = Inr ?e"
    by (simp add: down_answer)
  have r9: "requests_send ?W0 (trace client)
              (request_of (self client) POST (py_str ?W0 (JStr (api @ ''/3/actions/publish'')))
                 False NoBody) = Inr ?e"
    by (simp add: down_answer)
  have "\<exists>m md. metadata_fixed ?W0 draft3 None ''1.0'' = Inr m \<and>
                metadata_overrides m None None None None = Inr md"
    by (simp add: metadata_fixed_def template_merge_def metadata_overrides_def and_then_def
          draft3_def)
  then obtain m md where m: "metadata_fixed ?W0 draft3 None ''1.0'' = Inr m"
    and md: "metadata_overrides m None None None None = Inr md"
    by (elim exE conjE)
  have r8: "requests_send ?W0 (trace client) (metadata_request ?W0 client (JNum 3) md) = Inr ?e"
    by (simp add: down_answer)
  have c1: "fst (get_depositions ?W0 client)
              = refused ?e ''Cannot query depositions: %s, %s'' [AInt (status_code ?e)]"
    by (rule unaccepted_status_is_fatal [THEN conjunct1, THEN mp]) (rule conjI r1 bad)+
  have c2: "fst (new_doi ?W0 client)
              = refused ?e ''Trouble requesting new upload: %s, %s'' [AInt (status_code ?e)]"
    by (rule unaccepted_status_is_fatal [THEN conjunct2, THEN conjunct1, THEN mp])
       (rule conjI r2 bad)+
  have c3: "fst (update_doi ?W1 ''10.5281/zenodo.1'' client)
              = refused ?e ''Cannot create a new version for doi '%s'. %s''
                  [AStr ''10.5281/zenodo.1'']"
    by (rule unaccepted_status_is_fatal
              [THEN conjunct2, THEN conjunct2, THEN conjunct1, THEN mp])
       (rule conjI f2 sub2 t2 l2 nv2 r3 bad)+
  have c4: "fst (update_doi ?W1 ''10.5281/zenodo.7'' client)
              = refused ?e ''Cannot create a draft for doi '%s'. %s'' [AStr ''10.5281/zenodo.7'']"
    by (rule unaccepted_status_is_fatal
              [THEN conjunct2, THEN conjunct2, THEN conjunct2, THEN conjunct1, THEN mp])
       (rule conjI f8 sub8 nt8 l8 ld8 r4 bad)+
  have c5: "fst (update_doi ?W2 ''10.5281/zenodo.1'' client)
              = refused ?e ''Cannot create a draft for doi '%s'. %s'' [AStr ''10.5281/zenodo.1'']"
    by (rule unaccepted_status_is_fatal
              [THEN conjunct2, THEN conjunct2, THEN conjunct2, THEN conjunct2, THEN conjunct1,
               THEN mp])
       (rule conjI f2' sub2 t2 l2 nv2 r5 ok5 dl dld r6 bad)+
  have c6: "fst (Zenodo_upload_archive ?W0 draft3 ''/repo/a.zip'' client)
              = Inl (Exit (Fmt ''Trouble uploading artifact %s to bucket with response code %s''
                             [AStr ''/repo/a.zip'', AInt (status_code ?e)]))"
    by (rule unaccepted_status_is_fatal
              [THEN conjunct2, THEN conjunct2, THEN conjunct2, THEN conjunct2, THEN conjunct2,
               THEN conjunct1, THEN mp])
       (rule conjI ul ub co r7 bad)+
  have c7: "fst (upload_metadata ?W0 draft3 None ''1.0'' None None None None client)
              = refused ?e ''Trouble uploading metadata %s, %s'' [AInt (status_code ?e)]"
    by (rule unaccepted_status_is_fatal
              [THEN conjunct2, THEN conjunct2, THEN conjunct2, THEN conjunct2, THEN conjunct2,
               THEN conjunct2, THEN conjunct1, THEN mp])
       (rule conjI m md ui r8 bad)+
  have c8: "fst (publish ?W0 draft3 client)
              = refused ?e ''Issue publishing record: %s, %s'' [AInt (status_code ?e)]"
    by (rule unaccepted_status_is_fatal
              [THEN conjunct2, THEN conjunct2, THEN conjunct2, THEN conjunct2, THEN conjunct2,
               THEN conjunct2, THEN conjunct2, THEN mp])
       (rule conjI ul up r9 bad)+
  show ?thesis
    unfolding c1 c2 c3 c4 c5 c6 c7 c8 by (simp add: refused_def)
qed

text \<open>
  The messages of two calls leave out a part of the answer. The server answers 500 with
  the body \<open>server_error\<close> to the upload of \<open>a.zip\<close>: the run exits with a message
  made of the path and the status code, and the body is not in it. In a second run the
  server answers 500 to the request of a new version: the run exits with a message made
  of the DOI and the body, and the status code is not in it.
\<close>

theorem upload_message_leaves_out_the_body:
  "requests_send
     (down_except [(GET, api), (POST, api @ ''/2/actions/newversion''), (GET, api @ ''/3''),
                   (DELETE, api @ ''/3/files/f1'')]) []
     (request_of (self client) PUT ''https://zenodo.org/api/files/b3/a.zip'' False
        (DataFile ''/repo/a.zip''))
     = Inr \<lparr>status_code = 500, body = Some server_error\<rparr> \<and>
   fst (upload_archive
          (down_except [(GET, api), (POST, api @ ''/2/actions/newversion''), (GET, api @ ''/3''),
                        (DELETE, api @ ''/3/files/f1'')])
          ''secret'' ''a.zip'' ''1.0'' None None (Some ''10.5281/zenodo.1'') False None None None
          initial)
     = Inl (Exit (Fmt ''Trouble uploading artifact %s to bucket with response code %s''
                    [AStr ''/repo/a.zip'', AInt 500])) \<and>
   \<not> embeds (Fmt ''Trouble uploading artifact %s to bucket with response code %s''
              [AStr ''/repo/a.zip'', AInt 500]) (AJson server_error) \<and>
   fst (upload_archive (down_except [(GET, api)])
          ''secret'' ''a.zip'' ''1.0'' None None (Some ''10.5281/zenodo.1'') False None None None
          initial)
     = Inl (Exit (Fmt ''Cannot create a new version for doi '%s'. %s''
                    [AStr ''10.5281/zenodo.1'', AJson server_error])) \<and>
   \<not> embeds (Fmt ''Cannot create a new version for doi '%s'. %s''
              [AStr ''10.5281/zenodo.1'', AJson server_error]) (AInt 500)"
proof -
  let ?W = "down_except [(GET, api), (POST, api @ ''/2/actions/newversion''), (GET, api @ ''/3''),
                         (DELETE, api @ ''/3/files/f1'')]"
  have z: "\<And>s. Zenodo ''secret'' False initial =
         (Inr (), \<lparr>self = \<lparr>host = ''zenodo.org'',
                        self_headers = [(''Accept'', ''application/json'')],
                        self_params = [(''access_token'', ''secret'')]\<rparr>,
                        trace = [], stdout = [], appended = []\<rparr>)"
    by (simp add: Zenodo_def set_host_def initial_def)
  have a: "requests_send ?W []
     (request_of (self client) PUT ''https://zenodo.org/api/files/b3/a.zip'' False
        (DataFile ''/repo/a.zip''))
     = Inr \<lparr>status_code = 500, body = Some server_error\<rparr>"
    by (rule down_answer) (simp add: request_of_def api_def)
  have b: "fst (upload_archive ?W
          ''secret'' ''a.zip'' ''1.0'' None None (Some ''10.5281/zenodo.1'') False None None None
          initial)
     = Inl (Exit (Fmt ''Trouble uploading artifact %s to bucket with response code %s''
                    [AStr ''/repo/a.zip'', AInt 500]))"
    by (simp add: upload_archive_def Let_def bind_def [of "Zenodo _ _"] z update_doi_def
          find_deposit_def get_depositions_def get_def post_def choose_draft_def fetch_draft_def
          remove_files_def delete_file_def Zenodo_upload_archive_def basename_def
          run_defs down_except_def sample_defs)
  have c: "\<not> embeds (Fmt ''Trouble uploading artifact %s to bucket with response code %s''
              [AStr ''/repo/a.zip'', AInt 500]) (AJson server_error)"
    by simp
  have d: "fst (upload_archive (down_except [(GET, api)])
          ''secret'' ''a.zip'' ''1.0'' None None (Some ''10.5281/zenodo.1'') False None None None
          initial)
     = Inl (Exit (Fmt ''Cannot create a new version for doi '%s'. %s''
                    [AStr ''10.5281/zenodo.1'', AJson server_error]))"
    by (simp add: upload_archive_def Let_def bind_def [of "Zenodo _ _"] z update_doi_def
          find_deposit_def get_depositions_def get_def post_def choose_draft_def
          run_defs down_except_def sample_defs)
  have e: "\<not> embeds (Fmt ''Cannot create a new version for doi '%s'. %s''
              [AStr ''10.5281/zenodo.1'', AJson server_error]) (AInt 500)"
    by simp
  from a b c d e show ?thesis by (intro conjI)
qed

end
